theory Spec2Isabelle
  imports Main
begin

chapter \<open>The model\<close>

section \<open>Values exchanged with the client\<close>

text \<open>
  A request body as Express hands it to a route: the JSON values, and \<open>undefined\<close> for a
  body that was never parsed or a property that is absent. Only the JSON type of a number
  is ever inspected by the code modelled here, so numbers carry an integer. An object is
  its own enumerable properties in \<open>Object.keys\<close> order.
\<close>

datatype json =
    JUndefined
  | JNull
  | JBool bool
  | JNumber int
  | JString string
  | JArray "json list"
  | JObject "(string \<times> json) list"

text \<open>
  The second argument of \<open>jsonValidate\<close> (validation.js) is a schema by example: a
  JavaScript value in which a slot may be wrapped in an instance of the class
  \<open>Optional\<close>. \<open>EUndefined\<close> is what indexing an empty template array yields.
\<close>

datatype shape =
    EUndefined
  | ENull
  | EBool bool
  | ENumber int
  | EString string
  | EArray "shape list"
  | EObject "(string \<times> shape) list"
  | Optional shape

subsection \<open>errors.js: the class ClientError\<close>

text \<open>
  The \<open>data\<close> property of an error is, depending on the throw site, absent, a string (a
  user name), the offending value, the expected shape, or a list of keys.
\<close>

datatype errdata =
    NoData
  | DataString string
  | DataJson json
  | DataShape shape
  | DataKeys "string list"

record ClientError =
  status :: nat
  code :: string
  message :: string
  data :: errdata
  headers :: "(string \<times> string) list"

text \<open>
  The object literal passed to the constructor; \<open>status\<close> and \<open>headers\<close> may be left out
  and then take the defaults of the destructuring pattern
  \<^verbatim>\<open>{status = 400, code, message, data=undefined, headers={}}\<close>.
\<close>

record ClientErrorInit =
  init_status :: "nat option"
  init_code :: string
  init_message :: string
  init_data :: errdata
  init_headers :: "(string \<times> string) list option"

definition new_ClientError :: "ClientErrorInit \<Rightarrow> ClientError" where
  "new_ClientError obj =
     \<lparr> status = (case init_status obj of None \<Rightarrow> 400 | Some s \<Rightarrow> s),
       code = init_code obj,
       message = init_message obj,
       data = init_data obj,
       headers = (case init_headers obj of None \<Rightarrow> [] | Some h \<Rightarrow> h) \<rparr>"

section \<open>validation.js: strict integer parsing\<close>

subsection \<open>Regular expressions and \<open>RegExp.prototype.test\<close>\<close>








definition digitClass :: "char list" where
  "digitClass = ''0123456789''"




subsection \<open>\<open>parseIntStrict\<close> and its callers\<close>










section \<open>validation.js: \<open>jsonValidate\<close>\<close>

text \<open>The JSON types \<open>jsonType\<close> tells apart. (Its answer \<open>unknown\<close>, for functions and
  symbols, is not reachable from a parsed body or from a schema.)\<close>

datatype jtype = NullType | ArrayType | ObjectType | StringType | NumberType | BooleanType

fun typeName :: "jtype \<Rightarrow> string" where
  "typeName NullType = ''null''"
| "typeName ArrayType = ''array''"
| "typeName ObjectType = ''object''"
| "typeName StringType = ''string''"
| "typeName NumberType = ''number''"
| "typeName BooleanType = ''boolean''"

text \<open>\<open>jsonType\<close> on a request value: \<open>value == null\<close> holds of \<open>null\<close> and \<open>undefined\<close>.\<close>

fun jsonType :: "json \<Rightarrow> jtype" where
  "jsonType JUndefined = NullType"
| "jsonType JNull = NullType"
| "jsonType (JArray xs) = ArrayType"
| "jsonType (JObject ps) = ObjectType"
| "jsonType (JString s) = StringType"
| "jsonType (JNumber n) = NumberType"
| "jsonType (JBool b) = BooleanType"

text \<open>\<open>jsonType\<close> on a schema value. An instance of \<open>Optional\<close> is an object that is not
  an array.\<close>

fun shapeType :: "shape \<Rightarrow> jtype" where
  "shapeType EUndefined = NullType"
| "shapeType ENull = NullType"
| "shapeType (EArray ts) = ArrayType"
| "shapeType (EObject fs) = ObjectType"
| "shapeType (Optional e) = ObjectType"
| "shapeType (EString s) = StringType"
| "shapeType (ENumber n) = NumberType"
| "shapeType (EBool b) = BooleanType"

text \<open>\<open>expected instanceof Optional\<close>, and the field \<open>value\<close> of the wrapper.\<close>

fun isOptional :: "shape \<Rightarrow> bool" where
  "isOptional (Optional e) = True"
| "isOptional e = False"

fun unwrap :: "shape \<Rightarrow> shape" where
  "unwrap (Optional e) = e"
| "unwrap e = e"

text \<open>Own enumerable properties: of a request value, and of a schema value (the only
  property of an \<open>Optional\<close> instance is \<open>value\<close>). Reading a property that is not there
  gives \<open>undefined\<close>.\<close>

fun jsonProps :: "json \<Rightarrow> (string \<times> json) list" where
  "jsonProps (JObject ps) = ps"
| "jsonProps v = []"

fun shapeProps :: "shape \<Rightarrow> (string \<times> shape) list" where
  "shapeProps (EObject fs) = fs"
| "shapeProps (Optional e) = [(''value'', e)]"
| "shapeProps e = []"

definition jsonGet :: "json \<Rightarrow> string \<Rightarrow> json" where
  "jsonGet v key = (case map_of (jsonProps v) key of None \<Rightarrow> JUndefined | Some x \<Rightarrow> x)"

definition shapeGet :: "shape \<Rightarrow> string \<Rightarrow> shape" where
  "shapeGet e key = (case map_of (shapeProps e) key of None \<Rightarrow> EUndefined | Some x \<Rightarrow> x)"

text \<open>Array elements, and \<open>expected[i % expected.length]\<close>: for an empty template the
  index is \<open>NaN\<close> and the element \<open>undefined\<close>.\<close>

fun jsonElems :: "json \<Rightarrow> json list" where
  "jsonElems (JArray xs) = xs"
| "jsonElems v = []"

fun shapeElems :: "shape \<Rightarrow> shape list" where
  "shapeElems (EArray ts) = ts"
| "shapeElems e = []"

definition templateAt :: "shape \<Rightarrow> nat \<Rightarrow> shape" where
  "templateAt e i =
     (let ts = shapeElems e in if ts = [] then EUndefined else ts ! (i mod length ts))"

text \<open>\<open>actual.length\<close> of a string.\<close>

fun stringLength :: "json \<Rightarrow> nat" where
  "stringLength (JString s) = length s"
| "stringLength v = 0"

subsection \<open>Paths\<close>

text \<open>The arguments of \<open>join\<close>: the path so far (\<open>null\<close> or a string), an object key or an
  array index. \<open>filter(Boolean)\<close> drops \<open>null\<close>, the empty string and the index 0.\<close>

datatype part = NullPart | TextPart string | IndexPart nat

fun truthy :: "part \<Rightarrow> bool" where
  "truthy NullPart = False"
| "truthy (TextPart s) = (s \<noteq> [])"
| "truthy (IndexPart n) = (n \<noteq> 0)"

text \<open>\<open>String(i)\<close> of an index, in decimal. \<open>digitChar\<close> is only applied to numbers below
  ten.\<close>

definition digitChar :: "nat \<Rightarrow> char" where
  "digitChar d = digitClass ! d"

fun showNat :: "nat \<Rightarrow> string" where
  "showNat n = (if n < 10 then [digitChar n] else showNat (n div 10) @ [digitChar (n mod 10)])"

fun partText :: "part \<Rightarrow> string" where
  "partText NullPart = []"
| "partText (TextPart s) = s"
| "partText (IndexPart n) = showNat n"

fun joinWith :: "string \<Rightarrow> string list \<Rightarrow> string" where
  "joinWith sep [] = []"
| "joinWith sep [s] = s"
| "joinWith sep (s # t # ss) = s @ sep @ joinWith sep (t # ss)"

definition join :: "part list \<Rightarrow> string" where
  "join parts = joinWith ''.'' (map partText (filter truthy parts))"

fun pathPart :: "string option \<Rightarrow> part" where
  "pathPart None = NullPart"
| "pathPart (Some s) = TextPart s"

text \<open>\<open>path || 'body'\<close>.\<close>

fun pathOrBody :: "string option \<Rightarrow> string" where
  "pathOrBody None = ''body''"
| "pathOrBody (Some s) = (if s = [] then ''body'' else s)"

text \<open>\<open>minus(arr, arr2)\<close>.\<close>

definition minusList :: "string list \<Rightarrow> string list \<Rightarrow> string list" where
  "minusList arr arr2 = filter (\<lambda>ele. ele \<notin> set arr2) arr"

subsection \<open>The errors thrown\<close>

definition quoted :: "string \<Rightarrow> string" where
  "quoted s = [CHR 0x27] @ s @ [CHR 0x27]"

definition contentTypeError :: ClientError where
  "contentTypeError = new_ClientError
     \<lparr> init_status = None, init_code = ''invalid-body'',
       init_message = ''Invalid body. Please set the '' @ quoted ''Content-Type''
          @ '' header to '' @ quoted ''application/json'' @ ''.'',
       init_data = NoData, init_headers = None \<rparr>"

definition typeError :: "string option \<Rightarrow> jtype \<Rightarrow> jtype \<Rightarrow> shape \<Rightarrow> ClientError" where
  "typeError path expectedType actualType expected = new_ClientError
     \<lparr> init_status = None, init_code = ''invalid-body'',
       init_message = ''Invalid '' @ pathOrBody path @ ''. Expected ''
          @ quoted (typeName expectedType) @ '' but got '' @ quoted (typeName actualType)
          @ ''. See data for an example of the correct format.'',
       init_data = DataShape expected, init_headers = None \<rparr>"

definition emptyError :: "string option \<Rightarrow> json \<Rightarrow> ClientError" where
  "emptyError path actual = new_ClientError
     \<lparr> init_status = None, init_code = ''missing-fields'',
       init_message = ''Invalid '' @ pathOrBody path @ ''. Cannot be empty.'',
       init_data = DataJson actual, init_headers = None \<rparr>"

definition missingError :: "string option \<Rightarrow> string list \<Rightarrow> ClientError" where
  "missingError path missingKeys = new_ClientError
     \<lparr> init_status = None, init_code = ''missing-fields'',
       init_message = ''Missing required fields in '' @ pathOrBody path
          @ ''. These must be provided. See data for missing fields.'',
       init_data = DataKeys missingKeys, init_headers = None \<rparr>"

definition unexpectedError :: "string option \<Rightarrow> string list \<Rightarrow> ClientError" where
  "unexpectedError path unexpectedKeys = new_ClientError
     \<lparr> init_status = None, init_code = ''unexpected-fields'',
       init_message = ''Unexpected fields in '' @ pathOrBody path
          @ ''. Remove these. See data for unexpected fields.'',
       init_data = DataKeys unexpectedKeys, init_headers = None \<rparr>"

subsection \<open>The validator\<close>

text \<open>The recursive calls of a loop are made in order and the first exception ends the
  loop: of the results of the calls, the first error is the one thrown.\<close>

fun firstError :: "(ClientError + 'a) list \<Rightarrow> ClientError option" where
  "firstError [] = None"
| "firstError (Inl e # rs) = Some e"
| "firstError (Inr v # rs) = firstError rs"

lemma size_templateAt: "shapeType e = ArrayType \<Longrightarrow> size (templateAt e i) < size e"
proof (cases e)
  case (EArray ts)
  show ?thesis
  proof (cases "ts = []")
    case True
    with EArray show ?thesis by (simp add: templateAt_def)
  next
    case False
    then have "ts ! (i mod length ts) \<in> set ts" by simp
    then have "size (ts ! (i mod length ts)) \<le> size_list size ts"
      by (rule size_list_estimation') simp
    with EArray False show ?thesis by (simp add: templateAt_def)
  qed
qed simp_all

lemma size_shapeGet:
  "key \<in> fst ` set (shapeProps e) \<Longrightarrow> size (shapeGet e key) < size e"
proof (cases e)
  case (EObject fs)
  assume "key \<in> fst ` set (shapeProps e)"
  with EObject have "key \<in> dom (map_of fs)"
    by (simp add: dom_map_of_conv_image_fst)
  then obtain x where x: "map_of fs key = Some x" by blast
  then have "(key, x) \<in> set fs" by (rule map_of_SomeD)
  then have "size_prod (\<lambda>_. 0) size (key, x) \<le> size_list (size_prod (\<lambda>_. 0) size) fs"
    by (rule size_list_estimation') simp
  with EObject x show ?thesis by (simp add: shapeGet_def)
next
  case (Optional e')
  assume "key \<in> fst ` set (shapeProps e)"
  with Optional show ?thesis by (simp add: shapeGet_def)
qed simp_all

lemma size_unwrap: "size (unwrap e) \<le> size e"
  by (cases e) simp_all

function jsonValidate :: "json \<Rightarrow> shape \<Rightarrow> string option \<Rightarrow> ClientError + json" where
  "jsonValidate actual expected0 path =
     (if isOptional expected0 \<and> (actual = JUndefined \<or> actual = JNull \<or> actual = JString [])
      then Inr actual
      else
        let expected = unwrap expected0;
            actualType = jsonType actual;
            expectedType = shapeType expected
        in if expectedType \<noteq> actualType
           then (if path = None \<and> actual = JUndefined
                 then Inl contentTypeError
                 else Inl (typeError path expectedType actualType expected))
           else (case expectedType of
               StringType \<Rightarrow>
                 if stringLength actual = 0 then Inl (emptyError path actual) else Inr actual
             | ArrayType \<Rightarrow>
                 (case firstError (map (\<lambda>i. jsonValidate (jsonElems actual ! i)
                           (templateAt expected i) (Some (join [pathPart path, IndexPart i])))
                         [0 ..< length (jsonElems actual)]) of
                    Some err \<Rightarrow> Inl err
                  | None \<Rightarrow> Inr actual)
             | ObjectType \<Rightarrow>
                 (let actualKeys = map fst (jsonProps actual);
                      expectedKeys = map fst (shapeProps expected);
                      missingKeys = minusList
                        (filter (\<lambda>key. \<not> isOptional (shapeGet expected key)) expectedKeys)
                        actualKeys
                  in if length missingKeys > 0 then Inl (missingError path missingKeys)
                     else
                       let unexpectedKeys = minusList actualKeys expectedKeys
                       in if length unexpectedKeys > 0
                          then Inl (unexpectedError path unexpectedKeys)
                          else (case firstError (map (\<lambda>key. jsonValidate (jsonGet actual key)
                                    (shapeGet expected key)
                                    (Some (join [pathPart path, TextPart key])))
                                  expectedKeys) of
                             Some err \<Rightarrow> Inl err
                           | None \<Rightarrow> Inr actual))
             | _ \<Rightarrow> Inr actual))"
  by pat_completeness auto
termination
proof (relation "measure (\<lambda>(actual, expected0, path). size expected0)")
  show "wf (measure (\<lambda>(actual, expected0, path). size expected0))" by simp
next
  fix actual :: json and expected0 :: shape and path :: "string option"
    and x xa xb :: jtype and xc :: nat and xe :: shape
  assume "xe = unwrap expected0" "xb = shapeType xe" "xb = ArrayType"
  then have "size (templateAt xe xc) < size expected0"
    using size_templateAt [of xe xc] size_unwrap [of expected0] by simp
  then show "((jsonElems actual ! xc, templateAt xe xc, Some (join [pathPart path, IndexPart xc])),
       actual, expected0, path) \<in> measure (\<lambda>(actual, expected0, path). size expected0)"
    by simp
next
  fix actual :: json and expected0 :: shape and path :: "string option"
    and xe :: shape and xb :: jtype and xf :: "string list" and key :: string
  assume "xe = unwrap expected0" "xf = map fst (shapeProps xe)" "key \<in> set xf"
  then have "size (shapeGet xe key) < size expected0"
    using size_shapeGet [of key xe] size_unwrap [of expected0] by simp
  then show "((jsonGet actual key, shapeGet xe key, Some (join [pathPart path, TextPart key])),
       actual, expected0, path) \<in> measure (\<lambda>(actual, expected0, path). size expected0)"
    by simp
qed
subsection \<open>What the validator accepts, stated apart from the code\<close>

text \<open>
  The contract of section 4.3 of the specification, as a predicate without paths, errors
  or evaluation order. \<open>skippable\<close>: a slot marked optional is skipped when the value is
  absent, \<open>null\<close> or the empty string. \<open>wellTyped\<close>: a value against a schema value that is
  taken as it stands (an \<open>Optional\<close> instance met here is an object whose one property is
  \<open>value\<close>). \<open>conforms\<close>: a value against a slot.
\<close>

definition skippable :: "json \<Rightarrow> bool" where
  "skippable v = (v = JUndefined \<or> v = JNull \<or> v = JString [])"

definition requiredKeys :: "shape \<Rightarrow> string list" where
  "requiredKeys e = filter (\<lambda>key. \<not> isOptional (shapeGet e key)) (map fst (shapeProps e))"

lemma size_shapeGet_object: "shapeType e = ObjectType \<Longrightarrow> size (shapeGet e key) < size e"
proof (cases "key \<in> fst ` set (shapeProps e)")
  case True
  then show ?thesis by (rule size_shapeGet)
next
  case False
  assume "shapeType e = ObjectType"
  moreover from False have "map_of (shapeProps e) key = None"
    by (simp add: map_of_eq_None_iff)
  ultimately show ?thesis by (cases e) (simp_all add: shapeGet_def)
qed

function wellTyped :: "json \<Rightarrow> shape \<Rightarrow> bool" and conforms :: "json \<Rightarrow> shape \<Rightarrow> bool" where
  "wellTyped v e =
     (jsonType v = shapeType e \<and>
      (case shapeType e of
         StringType \<Rightarrow> v \<noteq> JString []
       | ArrayType \<Rightarrow>
           (\<forall>i < length (jsonElems v). conforms (jsonElems v ! i) (templateAt e i))
       | ObjectType \<Rightarrow>
           set (requiredKeys e) \<subseteq> fst ` set (jsonProps v) \<and>
           fst ` set (jsonProps v) \<subseteq> fst ` set (shapeProps e) \<and>
           (\<forall>key \<in> fst ` set (shapeProps e). conforms (jsonGet v key) (shapeGet e key))
       | _ \<Rightarrow> True))"
| "conforms v slot = ((isOptional slot \<and> skippable v) \<or> wellTyped v (unwrap slot))"
  by pat_completeness auto
termination
proof (relation "measure (\<lambda>x. case x of Inl (v, e) \<Rightarrow> 2 * size e | Inr (v, e) \<Rightarrow> 2 * size e + 1)")
  show "wf (measure (\<lambda>x. case x of Inl (v, e) \<Rightarrow> 2 * size e
      | Inr (v :: json, e :: shape) \<Rightarrow> 2 * size e + 1))"
    by simp
next
  fix v :: json and e :: shape and i :: nat
  assume "shapeType e = ArrayType"
  then show "(Inr (jsonElems v ! i, templateAt e i), Inl (v, e))
      \<in> measure (\<lambda>x. case x of Inl (v, e) \<Rightarrow> 2 * size e | Inr (v, e) \<Rightarrow> 2 * size e + 1)"
    using size_templateAt [of e i] by simp
next
  fix v :: json and e :: shape and key :: string
  assume "shapeType e = ObjectType"
  then show "(Inr (jsonGet v key, shapeGet e key), Inl (v, e))
      \<in> measure (\<lambda>x. case x of Inl (v, e) \<Rightarrow> 2 * size e | Inr (v, e) \<Rightarrow> 2 * size e + 1)"
    using size_shapeGet_object [of e key] by simp
next
  fix v :: json and slot :: shape
  show "(Inl (v, unwrap slot), Inr (v, slot))
      \<in> measure (\<lambda>x. case x of Inl (v, e) \<Rightarrow> 2 * size e | Inr (v, e) \<Rightarrow> 2 * size e + 1)"
    using size_unwrap [of slot] by simp
qed

subsection \<open>Shapes and paths used in the statements\<close>

text \<open>The shape \<open>POST /users\<close> validates its body against (server.js).\<close>

definition usersShape :: "(string \<times> shape) list" where
  "usersShape =
     [(''firstName'', Optional (EString ''John'')),
      (''lastName'', Optional (EString ''Doe'')),
      (''username'', EString ''johndoe''),
      (''password'', EString ''secret'')]"

text \<open>The path \<open>join(path, i)\<close> handed down for element \<open>i\<close> of an array.\<close>

definition elemPath :: "string option \<Rightarrow> nat \<Rightarrow> string option" where
  "elemPath path i = Some (join [pathPart path, IndexPart i])"

text \<open>
  Acceptance of a body by an object shape as the testable property of section 8 of the
  specification words it, read at the top level of the object: every required key is
  there, no key is outside the shape, every value provided has the JSON type of its slot,
  and no value of a slot that is not optional is the empty string.
\<close>

definition acceptsAsClaimed :: "(string \<times> shape) list \<Rightarrow> json \<Rightarrow> bool" where
  "acceptsAsClaimed slots body =
     (\<exists>props. body = JObject props \<and>
        set (requiredKeys (EObject slots)) \<subseteq> fst ` set props \<and>
        fst ` set props \<subseteq> fst ` set slots \<and>
        (\<forall>key \<in> fst ` set props.
            jsonType (jsonGet body key) = shapeType (unwrap (shapeGet (EObject slots) key))) \<and>
        (\<forall>key \<in> fst ` set props.
            \<not> isOptional (shapeGet (EObject slots) key) \<longrightarrow> jsonGet body key \<noteq> JString []))"

section \<open>What the modules are loaded with\<close>

text \<open>
  A \<open>Buffer\<close> is its bytes, and a byte is a \<open>char\<close> of HOL.

  The code calls into Node (\<open>crypto\<close>, \<open>Buffer\<close>, \<open>JSON\<close>), reads the secret key of
  config.js and has MySQL compare values. None of these is code of the repository, so
  the model takes them as an environment and every theorem holds for any environment,
  under the hypotheses it states.
  \<^item> \<open>jsonStringify\<close>, \<open>jsonParse\<close>: \<open>JSON.stringify\<close> and \<open>JSON.parse\<close>; \<open>None\<close> is an
    \<open>undefined\<close> result of the first (then \<open>cipher.update\<close> throws) and a \<open>SyntaxError\<close>
    of the second.
  \<^item> \<open>utf8Encode\<close>, \<open>utf8Decode\<close>: the \<open>'utf8'\<close> encoding of \<open>cipher.update\<close> and of
    \<open>decipher.update/final\<close> and \<open>Buffer.toString\<close>.
  \<^item> \<open>base64Encode\<close>, \<open>base64Decode\<close>: \<open>buffer.toString('base64')\<close> and
    \<open>Buffer.from(token, 'base64')\<close>. Node decodes what it can of a malformed string
    instead of throwing; \<open>None\<close> stands for any exception the call could raise.
  \<^item> \<open>cipherGcm key iv plain\<close>: \<open>createCipheriv('aes-256-gcm', key, iv)\<close>, \<open>update\<close>,
    \<open>final\<close> and \<open>getAuthTag\<close>, giving the ciphertext and the tag.
  \<^item> \<open>decipherGcm key iv tag encrypted\<close>: \<open>createDecipheriv\<close>, \<open>setAuthTag\<close>,
    \<open>update\<close> and \<open>final\<close>; \<open>None\<close> when any of them throws, as \<open>final\<close> does on a tag
    that does not verify.
  \<^item> \<open>scrypt password salt\<close>: \<open>crypto.scrypt\<close> with \<open>keySize\<close> and \<open>scryptOptions\<close>.
  \<^item> \<open>sqlTextEq\<close>, \<open>sqlIdEq\<close>: MySQL's \<open>=\<close> between a \<open>VARCHAR\<close> column and a bound
    string (the collation decides), and between a \<open>BIGINT\<close> column and a bound value.
\<close>

type_synonym buffer = "char list"

record environment =
  secretKey :: buffer
  jsonStringify :: "json \<Rightarrow> string option"
  jsonParse :: "string \<Rightarrow> json option"
  utf8Encode :: "string \<Rightarrow> buffer"
  utf8Decode :: "buffer \<Rightarrow> string"
  base64Encode :: "buffer \<Rightarrow> string"
  base64Decode :: "string \<Rightarrow> buffer option"
  cipherGcm :: "buffer \<Rightarrow> buffer \<Rightarrow> buffer \<Rightarrow> buffer \<times> buffer"
  decipherGcm :: "buffer \<Rightarrow> buffer \<Rightarrow> buffer \<Rightarrow> buffer \<Rightarrow> buffer option"
  scrypt :: "string \<Rightarrow> buffer \<Rightarrow> buffer"
  sqlTextEq :: "string \<Rightarrow> string \<Rightarrow> bool"
  sqlIdEq :: "nat \<Rightarrow> json \<Rightarrow> bool"

text \<open>An exception that is not a \<open>ClientError\<close> reaches the error handler of server.js
  as an internal error; \<open>AuthError\<close> is a subclass of \<open>ClientError\<close>.\<close>

datatype failure = Client ClientError | Internal string

section \<open>crypto.js: the token cipher\<close>

definition saltSize :: nat where "saltSize = 16"
definition keySize :: nat where "keySize = 64"
definition ivSize :: nat where "ivSize = 16"
definition tagSize :: nat where "tagSize = 16"

text \<open>\<open>buffer.slice(start, end)\<close> and \<open>buffer.slice(start)\<close> for indices that are not
  negative: the slice ends where the buffer ends.\<close>

definition bufferSlice :: "buffer \<Rightarrow> nat \<Rightarrow> nat \<Rightarrow> buffer" where
  "bufferSlice b start end = take (end - start) (drop start b)"

definition bufferSliceFrom :: "buffer \<Rightarrow> nat \<Rightarrow> buffer" where
  "bufferSliceFrom b start = drop start b"

text \<open>\<open>encrypt(content)\<close>. The argument \<open>iv\<close> is the outcome of
  \<open>crypto.randomBytes(ivSize)\<close>, which is \<open>ivSize\<close> bytes long.\<close>

definition encrypt :: "environment \<Rightarrow> buffer \<Rightarrow> json \<Rightarrow> failure + string" where
  "encrypt env iv content =
     (case jsonStringify env content of
        None \<Rightarrow> Inl (Internal ''TypeError'')
      | Some str \<Rightarrow>
          (case cipherGcm env (secretKey env) iv (utf8Encode env str) of
             (encrypted, tag) \<Rightarrow>
               if length tag \<noteq> tagSize then Inl (Internal ''Unexpected tag size'')
               else Inr (base64Encode env (iv @ tag @ encrypted))))"

definition invalidAuth :: ClientError where
  "invalidAuth = new_ClientError
     \<lparr> init_status = None, init_code = ''invalid-auth'',
       init_message = ''Invalid authentication'', init_data = NoData, init_headers = None \<rparr>"

text \<open>\<open>decrypt(token)\<close>: whatever is thrown inside the \<open>try\<close> block is caught and replaced
  by the one \<open>ClientError\<close>.\<close>

definition decrypt :: "environment \<Rightarrow> string \<Rightarrow> ClientError + json" where
  "decrypt env token =
     (case base64Decode env token of
        None \<Rightarrow> Inl invalidAuth
      | Some buffer \<Rightarrow>
          let iv = bufferSlice buffer 0 ivSize;
              tag = bufferSlice buffer ivSize (ivSize + tagSize)
          in if length iv \<noteq> ivSize \<or> length tag \<noteq> tagSize then Inl invalidAuth
             else
               let encrypted = bufferSliceFrom buffer (ivSize + tagSize)
               in (case decipherGcm env (secretKey env) iv tag encrypted of
                     None \<Rightarrow> Inl invalidAuth
                   | Some plain \<Rightarrow>
                       (case jsonParse env (utf8Decode env plain) of
                          None \<Rightarrow> Inl invalidAuth
                        | Some v \<Rightarrow> Inr v)))"

text \<open>
  What the round trip asks of the library: a payload is JSON-serializable when
  \<open>JSON.parse\<close> reads back what \<open>JSON.stringify\<close> wrote; UTF-8 and base64 decoding undo
  their encodings; AES-GCM gives a tag of \<open>tagSize\<close> bytes and deciphers, under the same
  key, nonce and tag, what it enciphered.
\<close>

definition jsonSerializable :: "environment \<Rightarrow> json \<Rightarrow> bool" where
  "jsonSerializable env p =
     (case jsonStringify env p of None \<Rightarrow> False | Some str \<Rightarrow> jsonParse env str = Some p)"

definition codecsInvert :: "environment \<Rightarrow> bool" where
  "codecsInvert env =
     ((\<forall>s. utf8Decode env (utf8Encode env s) = s) \<and>
      (\<forall>b. base64Decode env (base64Encode env b) = Some b))"

definition gcmInverts :: "environment \<Rightarrow> bool" where
  "gcmInverts env =
     (\<forall>key iv plain.
        length (snd (cipherGcm env key iv plain)) = tagSize \<and>
        decipherGcm env key iv (snd (cipherGcm env key iv plain))
          (fst (cipherGcm env key iv plain)) = Some plain)"

text \<open>A small environment to run the definitions in: the codecs are the identity, the
  cipher reverses the plaintext and tags it with sixteen copies of the last digit of its
  length, and the JSON functions know one session payload.\<close>

definition toyPayload :: json where
  "toyPayload = JObject [(''sessionId'', JString ''7'')]"

definition toyText :: string where
  "toyText = ''{sessionId:7}''"

definition toyTag :: "buffer \<Rightarrow> buffer" where
  "toyTag encrypted =
     (let c = digitChar (length encrypted mod 10)
      in [c, c, c, c, c, c, c, c, c, c, c, c, c, c, c, c])"

definition toyEnv :: environment where
  "toyEnv =
     \<lparr> secretKey = ''k'',
       jsonStringify = (\<lambda>v. if v = toyPayload then Some toyText else None),
       jsonParse = (\<lambda>s. if s = toyText then Some toyPayload else None),
       utf8Encode = (\<lambda>s. s),
       utf8Decode = (\<lambda>b. b),
       base64Encode = (\<lambda>b. b),
       base64Decode = (\<lambda>s. Some s),
       cipherGcm = (\<lambda>key iv plain. (rev plain, toyTag plain)),
       decipherGcm = (\<lambda>key iv tag encrypted.
          if tag = toyTag encrypted then Some (rev encrypted) else None),
       scrypt = (\<lambda>password salt. salt @ password),
       sqlTextEq = (\<lambda>a b. a = b),
       sqlIdEq = (\<lambda>n v. v = JString (showNat n)) \<rparr>"
section \<open>database.js: the tables\<close>

text \<open>The rows of the tables \<open>init\<close> creates, each table in the order the server
  returns its rows, and the \<open>AUTO_INCREMENT\<close> counters of the two tables \<open>POST /lists\<close>
  inserts into. \<open>DATETIME\<close> values and \<open>NOW()\<close> are seconds.\<close>

record userRow =
  user_id :: nat
  user_firstName :: "string option"
  user_lastName :: "string option"
  user_username :: string
  user_password :: buffer
  user_salt :: buffer

record sessionRow =
  session_id :: nat
  session_userId :: nat
  session_expirationDate :: nat

record listRow =
  list_id :: nat
  list_name :: string

record permissionRow =
  permission_id :: nat
  permission_userId :: "nat option"
  permission_listId :: nat
  permission_role :: string

record database =
  usersTable :: "userRow list"
  sessionsTable :: "sessionRow list"
  listsTable :: "listRow list"
  permissionsTable :: "permissionRow list"
  nextListId :: nat
  nextPermissionId :: nat

text \<open>The first statement of \<open>purge\<close>:
  \<^verbatim>\<open>DELETE FROM todo.sessions WHERE expirationDate < NOW()\<close>.\<close>

definition purgeSessions :: "nat \<Rightarrow> database \<Rightarrow> database" where
  "purgeSessions now db =
     db \<lparr> sessionsTable := filter (\<lambda>s. \<not> session_expirationDate s < now) (sessionsTable db) \<rparr>"

section \<open>util.js: authentication and permissions\<close>

text \<open>Of a request: \<open>req.get("authorization")\<close>, \<open>req.xhr\<close> and \<open>req.body\<close>.\<close>

record request =
  authorization :: "string option"
  xhr :: bool
  body :: json

definition setHeader :: "(string \<times> string) list \<Rightarrow> string \<Rightarrow> string \<Rightarrow> (string \<times> string) list" where
  "setHeader hs name v = (name, v) # filter (\<lambda>h. fst h \<noteq> name) hs"

definition basicChallenge :: string where
  "basicChallenge = ''Basic charset='' @ [CHR 0x22] @ ''UTF-8'' @ [CHR 0x22]"

text \<open>The constructor of \<open>AuthError\<close>.\<close>

definition new_AuthError :: "request \<Rightarrow> ClientErrorInit \<Rightarrow> ClientError" where
  "new_AuthError req obj =
     (let headers0 = (case init_headers obj of None \<Rightarrow> [] | Some h \<Rightarrow> h);
          headers1 = (if \<not> xhr req then setHeader headers0 ''WWW-Authenticate'' basicChallenge
                      else headers0)
      in new_ClientError (obj \<lparr> init_headers := Some headers1 \<rparr>))"

text \<open>The third argument of \<open>authenticate\<close>: \<open>true\<close> (the default), \<open>false\<close> or a string.\<close>

datatype requirement = RequireBool bool | RequireType string

fun isString :: "requirement \<Rightarrow> bool" where
  "isString (RequireType s) = True"
| "isString (RequireBool b) = False"

fun truthyRequirement :: "requirement \<Rightarrow> bool" where
  "truthyRequirement (RequireBool b) = b"
| "truthyRequirement (RequireType s) = (s \<noteq> [])"

record identity =
  type :: string
  userId :: "nat option"
  sessionId :: "json option"

definition startsWith :: "string \<Rightarrow> string \<Rightarrow> bool" where
  "startsWith s p = (take (length p) s = p)"

text \<open>\<open>s.indexOf(c)\<close>, \<open>s.slice(start, end)\<close> and \<open>s.slice(start)\<close>; a negative index counts
  from the end.\<close>

fun indexOf :: "'a list \<Rightarrow> 'a \<Rightarrow> int" where
  "indexOf [] x = - 1"
| "indexOf (y # ys) x = (if y = x then 0 else (let i = indexOf ys x in if i < 0 then - 1 else i + 1))"

definition sliceIndex :: "nat \<Rightarrow> int \<Rightarrow> nat" where
  "sliceIndex len i = (if i < 0 then nat (int len + i) else min (nat i) len)"

definition stringSlice :: "string \<Rightarrow> int \<Rightarrow> int \<Rightarrow> string" where
  "stringSlice s start end =
     (let a = sliceIndex (length s) start; b = sliceIndex (length s) end
      in take (b - a) (drop a s))"

definition stringSliceFrom :: "string \<Rightarrow> int \<Rightarrow> string" where
  "stringSliceFrom s start = drop (sliceIndex (length s) start) s"

text \<open>The destructuring \<^verbatim>\<open>let { sessionId } = await decrypt(token)\<close>: it throws a
  \<open>TypeError\<close> on \<open>null\<close>, and reads a property that is not there as \<open>undefined\<close>.\<close>

fun destructureSessionId :: "json \<Rightarrow> failure + json" where
  "destructureSessionId JNull = Inl (Internal ''TypeError'')"
| "destructureSessionId JUndefined = Inl (Internal ''TypeError'')"
| "destructureSessionId v = Inr (jsonGet v ''sessionId'')"

definition authenticate ::
  "environment \<Rightarrow> database \<Rightarrow> nat \<Rightarrow> request \<Rightarrow> requirement \<Rightarrow> failure + identity" where
  "authenticate env db now req require =
     (let fallThrough =
            (if truthyRequirement require
             then Inl (Client (new_AuthError req
                    \<lparr> init_status = Some 401, init_code = ''auth-required'',
                      init_message = ''Authentication required'',
                      init_data = NoData, init_headers = None \<rparr>))
             else Inr \<lparr> type = ''none'', userId = None, sessionId = None \<rparr>)
      in case authorization req of
        None \<Rightarrow> fallThrough
      | Some auth \<Rightarrow>
          if startsWith auth ''Basic '' \<and>
             (\<not> isString require \<or> require = RequireType ''credentials'')
          then
            (case base64Decode env (stringSliceFrom auth 6) of
               None \<Rightarrow> Inl (Internal ''TypeError'')
             | Some decoded \<Rightarrow>
                 let credentials = utf8Decode env decoded;
                     i = indexOf credentials (CHR '':'');
                     username = stringSlice credentials 0 i;
                     password = stringSliceFrom credentials (i + 1)
                 in (case filter (\<lambda>u. sqlTextEq env (user_username u) username) (usersTable db) of
                       [] \<Rightarrow> Inl (Client (new_AuthError req
                              \<lparr> init_status = Some 401, init_code = ''missing-user'',
                                init_message = ''User not found.'',
                                init_data = DataString username, init_headers = None \<rparr>))
                     | row # rest \<Rightarrow>
                         let hash2 = scrypt env password (user_salt row)
                         in if user_password row \<noteq> hash2
                            then Inl (Client (new_AuthError req
                              \<lparr> init_status = Some 401, init_code = ''invalid-password'',
                                init_message = ''Invalid password.'',
                                init_data = DataString username, init_headers = None \<rparr>))
                            else Inr \<lparr> type = ''credentials'',
                                       userId = Some (user_id row), sessionId = None \<rparr>))
          else if startsWith auth ''Bearer '' \<and>
             (\<not> isString require \<or> require = RequireType ''token'')
          then
            (case decrypt env (stringSliceFrom auth 7) of
               Inl err \<Rightarrow> Inl (Client err)
             | Inr payload \<Rightarrow>
                 (case destructureSessionId payload of
                    Inl err \<Rightarrow> Inl err
                  | Inr sid \<Rightarrow>
                      (case filter (\<lambda>s. sqlIdEq env (session_id s) sid \<and>
                                         session_expirationDate s \<ge> now) (sessionsTable db) of
                         [] \<Rightarrow> Inl (Client (new_AuthError req
                                \<lparr> init_status = Some 401, init_code = ''expired-session'',
                                  init_message = ''Session has expired'',
                                  init_data = NoData, init_headers = None \<rparr>))
                       | row # rest \<Rightarrow>
                           Inr \<lparr> type = ''token'', userId = Some (session_userId row),
                                 sessionId = Some sid \<rparr>)))
          else fallThrough)"

text \<open>\<open>hasRole\<close> and \<open>checkPermissions\<close>. The query selects with
  \<^verbatim>\<open>IF(? IS NOT NULL, userId = ?, userId IS NULL) AND listId = ?\<close>, where \<open>userId = ?\<close>
  is not true of a row whose \<open>userId\<close> is \<open>NULL\<close>.\<close>

definition roles :: "string list" where
  "roles = [''read'', ''write'', ''owner'']"

definition hasRole :: "string \<Rightarrow> string \<Rightarrow> bool" where
  "hasRole role required = (indexOf roles role \<ge> indexOf roles required)"

definition permissionMatches :: "nat option \<Rightarrow> nat \<Rightarrow> permissionRow \<Rightarrow> bool" where
  "permissionMatches uid listId p =
     ((case uid of
         Some u \<Rightarrow> permission_userId p = Some u
       | None \<Rightarrow> permission_userId p = None)
      \<and> permission_listId p = listId)"

definition insufficientPerms :: "request \<Rightarrow> ClientError" where
  "insufficientPerms req = new_AuthError req
     \<lparr> init_status = Some 401, init_code = ''insufficient-perms'',
       init_message = ''Insufficient permissions'', init_data = NoData, init_headers = None \<rparr>"

definition checkPermissions ::
  "request \<Rightarrow> database \<Rightarrow> nat option \<Rightarrow> nat \<Rightarrow> string \<Rightarrow> ClientError + unit" where
  "checkPermissions req db uid listId role =
     (case filter (permissionMatches uid listId) (permissionsTable db) of
        [] \<Rightarrow> Inl (insufficientPerms req)
      | row # rest \<Rightarrow>
          if \<not> hasRole (permission_role row) role then Inl (insufficientPerms req)
          else Inr ())"

text \<open>The data model's constraint on permissions (section 3 of the specification): one
  row for each pair of a user, or none, and a list.\<close>

definition onePermissionPerPair :: "database \<Rightarrow> bool" where
  "onePermissionPerPair db =
     (\<forall>p \<in> set (permissionsTable db). \<forall>q \<in> set (permissionsTable db).
        permission_userId p = permission_userId q \<and> permission_listId p = permission_listId q
        \<longrightarrow> p = q)"

section \<open>server.js: the error handler and \<open>POST /lists\<close>\<close>

record response =
  res_status :: nat
  res_headers :: "(string \<times> string) list"
  res_body :: json

text \<open>A schema value as a response carries it: \<open>toJSON\<close> of an \<open>Optional\<close> gives the value
  it wraps.\<close>

fun shapeJson :: "shape \<Rightarrow> json" where
  "shapeJson EUndefined = JUndefined"
| "shapeJson ENull = JNull"
| "shapeJson (EBool b) = JBool b"
| "shapeJson (ENumber n) = JNumber n"
| "shapeJson (EString s) = JString s"
| "shapeJson (EArray ts) = JArray (map shapeJson ts)"
| "shapeJson (EObject fs) = JObject (map (map_prod id shapeJson) fs)"
| "shapeJson (Optional e) = shapeJson e"

fun errdataJson :: "errdata \<Rightarrow> json" where
  "errdataJson NoData = JUndefined"
| "errdataJson (DataString s) = JString s"
| "errdataJson (DataJson v) = v"
| "errdataJson (DataKeys ks) = JArray (map JString ks)"
| "errdataJson (DataShape e) = shapeJson e"

text \<open>The last middleware.\<close>

fun errorResponse :: "failure \<Rightarrow> response" where
  "errorResponse (Client err) =
     \<lparr> res_status = status err, res_headers = headers err,
       res_body = JObject [(''success'', JBool False), (''code'', JString (code err)),
                           (''message'', JString (message err)),
                           (''data'', errdataJson (data err))] \<rparr>"
| "errorResponse (Internal msg) =
     \<lparr> res_status = 500, res_headers = [],
       res_body = JObject [(''success'', JBool False), (''code'', JString ''internal-error''),
                           (''message'', JString ''Internal error'')] \<rparr>"

definition listsShape :: shape where
  "listsShape = EObject [(''name'', EString ''Groceries'')]"

text \<open>\<^verbatim>\<open>INSERT INTO todo.lists SET ?\<close> with the validated body: the new row takes the
  counter's value as its id. MySQL in strict mode, its default, refuses a name longer
  than the column \<open>VARCHAR(255)\<close>.\<close>

definition insertList :: "database \<Rightarrow> json \<Rightarrow> failure + (nat \<times> database)" where
  "insertList db fieldValues =
     (case jsonGet fieldValues ''name'' of
        JString name \<Rightarrow>
          if length name > 255 then Inl (Internal ''ER_DATA_TOO_LONG'')
          else Inr (nextListId db,
                 db \<lparr> listsTable := listsTable db @ [\<lparr> list_id = nextListId db, list_name = name \<rparr>],
                      nextListId := nextListId db + 1 \<rparr>)
      | other \<Rightarrow> Inl (Internal ''ER_BAD_NULL_ERROR''))"

text \<open>\<^verbatim>\<open>INSERT INTO todo.permissions(userId, listId, role) VALUES (?, ?, 'owner')\<close>.
  The unique key on \<open>(userId, listId)\<close> refuses a second row for a user and a list; it
  does not apply to rows whose \<open>userId\<close> is \<open>NULL\<close>. The foreign key asks for the list.\<close>

definition insertOwner :: "database \<Rightarrow> nat option \<Rightarrow> nat \<Rightarrow> failure + database" where
  "insertOwner db uid listId =
     (if listId \<notin> list_id ` set (listsTable db) then Inl (Internal ''ER_NO_REFERENCED_ROW'')
      else if uid \<noteq> None \<and>
              (\<exists>p \<in> set (permissionsTable db). permission_userId p = uid \<and> permission_listId p = listId)
      then Inl (Internal ''ER_DUP_ENTRY'')
      else Inr (db \<lparr> permissionsTable := permissionsTable db @
                       [\<lparr> permission_id = nextPermissionId db, permission_userId = uid,
                          permission_listId = listId, permission_role = ''owner'' \<rparr>],
                     nextPermissionId := nextPermissionId db + 1 \<rparr>))"

text \<open>The handler of \<open>POST /lists\<close> under \<open>route\<close>: the response and the database it
  leaves, or the failure handed to the error handler.\<close>

definition postLists ::
  "environment \<Rightarrow> database \<Rightarrow> nat \<Rightarrow> request \<Rightarrow> failure + (response \<times> database)" where
  "postLists env db now req =
     (case authenticate env db now req (RequireBool False) of
        Inl err \<Rightarrow> Inl err
      | Inr who \<Rightarrow>
          (case jsonValidate (body req) listsShape None of
             Inl err \<Rightarrow> Inl (Client err)
           | Inr fieldValues \<Rightarrow>
               (case insertList db fieldValues of
                  Inl err \<Rightarrow> Inl err
                | Inr (listId, db1) \<Rightarrow>
                    (case insertOwner db1 (userId who) listId of
                       Inl err \<Rightarrow> Inl err
                     | Inr db2 \<Rightarrow>
                         Inr (\<lparr> res_status = 201, res_headers = [],
                                res_body = JObject [(''listId'', JString (showNat listId)),
                                                    (''success'', JBool True)] \<rparr>,
                              db2)))))"

text \<open>What the foreign key of \<open>permissions\<close> and the counter of \<open>lists\<close> maintain: a
  permission names a list that exists, and the ids in use are below the counter.\<close>

definition listIdsConsistent :: "database \<Rightarrow> bool" where
  "listIdsConsistent db =
     ((\<forall>l \<in> set (listsTable db). list_id l < nextListId db) \<and>
      (\<forall>p \<in> set (permissionsTable db). permission_listId p \<in> list_id ` set (listsTable db)))"

subsection \<open>Requests and tables to run the definitions on\<close>

text \<open>The token \<open>encrypt\<close> seals for \<open>toyPayload\<close> in \<open>toyEnv\<close> under the nonce
  \<open>0123456789abcdef\<close>, a request that bears it, and a database holding session 7 of
  user 3, which expires at second 100.\<close>

definition toyToken :: string where
  "toyToken = ''0123456789abcdef'' @ ''3333333333333333'' @ ''}7:dInoisses{''"

definition bearerRequest :: request where
  "bearerRequest = \<lparr> authorization = Some (''Bearer '' @ toyToken), xhr = True, body = JUndefined \<rparr>"

definition sessionDb :: database where
  "sessionDb =
     \<lparr> usersTable = [], 
       sessionsTable = [\<lparr> session_id = 7, session_userId = 3, session_expirationDate = 100 \<rparr>],
       listsTable = [], permissionsTable = [], nextListId = 1, nextPermissionId = 1 \<rparr>"

text \<open>A request without credentials, and a database in which user 1 may read list 10
  and anyone may write to it.\<close>

definition plainRequest :: request where
  "plainRequest = \<lparr> authorization = None, xhr = True, body = JUndefined \<rparr>"

definition permsDb :: database where
  "permsDb =
     \<lparr> usersTable = [], sessionsTable = [],
       listsTable = [\<lparr> list_id = 10, list_name = ''Groceries'' \<rparr>],
       permissionsTable =
         [\<lparr> permission_id = 1, permission_userId = Some 1, permission_listId = 10,
            permission_role = ''read'' \<rparr>,
          \<lparr> permission_id = 2, permission_userId = None, permission_listId = 10,
            permission_role = ''write'' \<rparr>],
       nextListId = 11, nextPermissionId = 3 \<rparr>"

chapter \<open>Verification\<close>

section \<open>Strict integer parsing: the pattern and the result\<close>












section \<open>The request validator\<close>

declare jsonValidate.simps [simp del] wellTyped.simps [simp del] conforms.simps [simp del]

lemma firstError_None_iff:
  "firstError rs = None \<longleftrightarrow> (\<forall>r \<in> set rs. \<exists>v. r = Inr v)"
  by (induction rs rule: firstError.induct) auto

lemma firstError_map_None_iff:
  "firstError (map f xs) = None \<longleftrightarrow> (\<forall>x \<in> set xs. \<exists>v. f x = Inr v)"
  by (simp add: firstError_None_iff)

lemma firstError_first:
  "i < length rs \<Longrightarrow> rs ! i = Inl err \<Longrightarrow> (\<forall>j < i. \<exists>v. rs ! j = Inr v)
     \<Longrightarrow> firstError rs = Some err"
proof (induction rs arbitrary: i rule: firstError.induct)
  case 1
  then show ?case by simp
next
  case (2 e rs)
  then show ?case by (cases i) auto
next
  case (3 v rs)
  show ?case
  proof (cases i)
    case 0
    with 3 show ?thesis by simp
  next
    case (Suc k)
    with 3(2,3) have "k < length rs" "rs ! k = Inl err" by simp_all
    moreover have "\<forall>j < k. \<exists>v. rs ! j = Inr v"
    proof (intro allI impI)
      fix j assume "j < k"
      then have "Suc j < i" using Suc by simp
      with 3(4) have "\<exists>v'. (Inr v # rs) ! Suc j = Inr v'" by blast
      then show "\<exists>v. rs ! j = Inr v" by simp
    qed
    ultimately have "firstError rs = Some err" by (rule 3(1))
    then show ?thesis by simp
  qed
qed

lemma jsonValidate_skip:
  "isOptional e \<Longrightarrow> skippable v \<Longrightarrow> jsonValidate v e p = Inr v"
  by (subst jsonValidate.simps) (auto simp: skippable_def)

lemma jsonValidate_mismatch:
  "\<not> (isOptional e \<and> skippable v) \<Longrightarrow> shapeType (unwrap e) \<noteq> jsonType v \<Longrightarrow>
   jsonValidate v e p =
     Inl (if p = None \<and> v = JUndefined then contentTypeError
          else typeError p (shapeType (unwrap e)) (jsonType v) (unwrap e))"
  by (subst jsonValidate.simps) (auto simp: skippable_def Let_def)

lemma jsonValidate_string:
  "\<not> (isOptional e \<and> skippable v) \<Longrightarrow> shapeType (unwrap e) = StringType \<Longrightarrow>
   jsonType v = StringType \<Longrightarrow>
   jsonValidate v e p = (if stringLength v = 0 then Inl (emptyError p v) else Inr v)"
  by (subst jsonValidate.simps) (auto simp: skippable_def Let_def)

lemma jsonValidate_scalar:
  "\<not> (isOptional e \<and> skippable v) \<Longrightarrow> shapeType (unwrap e) = jsonType v \<Longrightarrow>
   jsonType v \<in> {NullType, NumberType, BooleanType} \<Longrightarrow>
   jsonValidate v e p = Inr v"
  by (subst jsonValidate.simps) (auto simp: skippable_def Let_def)

lemma jsonValidate_array:
  "\<not> (isOptional e \<and> skippable v) \<Longrightarrow> shapeType (unwrap e) = ArrayType \<Longrightarrow>
   jsonType v = ArrayType \<Longrightarrow>
   jsonValidate v e p =
     (case firstError (map (\<lambda>i. jsonValidate (jsonElems v ! i) (templateAt (unwrap e) i)
                (Some (join [pathPart p, IndexPart i]))) [0 ..< length (jsonElems v)]) of
        Some err \<Rightarrow> Inl err
      | None \<Rightarrow> Inr v)"
  by (subst jsonValidate.simps) (auto simp: skippable_def Let_def)

lemma jsonValidate_object:
  "\<not> (isOptional e \<and> skippable v) \<Longrightarrow> shapeType (unwrap e) = ObjectType \<Longrightarrow>
   jsonType v = ObjectType \<Longrightarrow>
   jsonValidate v e p =
     (if minusList (requiredKeys (unwrap e)) (map fst (jsonProps v)) \<noteq> []
      then Inl (missingError p (minusList (requiredKeys (unwrap e)) (map fst (jsonProps v))))
      else if minusList (map fst (jsonProps v)) (map fst (shapeProps (unwrap e))) \<noteq> []
      then Inl (unexpectedError p
             (minusList (map fst (jsonProps v)) (map fst (shapeProps (unwrap e)))))
      else (case firstError (map (\<lambda>key. jsonValidate (jsonGet v key) (shapeGet (unwrap e) key)
                  (Some (join [pathPart p, TextPart key]))) (map fst (shapeProps (unwrap e)))) of
              Some err \<Rightarrow> Inl err
            | None \<Rightarrow> Inr v))"
  by (subst jsonValidate.simps) (auto simp: skippable_def Let_def requiredKeys_def)

lemma jsonValidate_returns_actual: "jsonValidate v e p = Inr w \<Longrightarrow> w = v"
  by (subst (asm) jsonValidate.simps)
     (auto simp: Let_def split: if_splits jtype.splits option.splits)


lemma minusList_empty_iff: "minusList xs ys = [] \<longleftrightarrow> set xs \<subseteq> set ys"
  by (auto simp: minusList_def filter_empty_conv)

lemma jsonValidate_accepts_iff:
  "(\<exists>w. jsonValidate v e p = Inr w) \<longleftrightarrow> conforms v e"
proof (induction e arbitrary: v p rule: measure_induct_rule [of size])
  case (less e)
  show ?case
  proof (cases "isOptional e \<and> skippable v")
    case True
    then show ?thesis by (simp add: jsonValidate_skip conforms.simps)
  next
    case noskip: False
    define u where "u = unwrap e"
    have c: "conforms v e \<longleftrightarrow> wellTyped v u"
      using noskip by (auto simp: conforms.simps u_def)
    have su: "size u \<le> size e" unfolding u_def by (rule size_unwrap)
    show ?thesis
    proof (cases "shapeType u = jsonType v")
      case False
      then have "\<not> wellTyped v u" by (subst wellTyped.simps) auto
      moreover have "\<not> (\<exists>w. jsonValidate v e p = Inr w)"
        using jsonValidate_mismatch [OF noskip, of p] False by (simp add: u_def)
      ultimately show ?thesis using c by simp
    next
      case same: True
      show ?thesis
      proof (cases "jsonType v")
        case StringType
        then obtain s where v: "v = JString s" by (cases v) simp_all
        have "wellTyped v u \<longleftrightarrow> s \<noteq> []"
          using same StringType v by (subst wellTyped.simps) simp
        moreover have "(\<exists>w. jsonValidate v e p = Inr w) \<longleftrightarrow> s \<noteq> []"
          using jsonValidate_string [OF noskip, of p] same StringType v by (simp add: u_def)
        ultimately show ?thesis using c by simp
      next
        case ArrayType
        have ih: "\<And>i. (\<exists>w. jsonValidate (jsonElems v ! i) (templateAt u i)
              (Some (join [pathPart p, IndexPart i])) = Inr w)
            \<longleftrightarrow> conforms (jsonElems v ! i) (templateAt u i)"
        proof -
          fix i
          have "size (templateAt u i) < size e"
            using size_templateAt [of u i] same ArrayType su by simp
          then show "(\<exists>w. jsonValidate (jsonElems v ! i) (templateAt u i)
              (Some (join [pathPart p, IndexPart i])) = Inr w)
            \<longleftrightarrow> conforms (jsonElems v ! i) (templateAt u i)"
            by (rule less.IH)
        qed
        have "wellTyped v u \<longleftrightarrow>
            (\<forall>i < length (jsonElems v). conforms (jsonElems v ! i) (templateAt u i))"
          using same ArrayType by (subst wellTyped.simps) simp
        moreover have "(\<exists>w. jsonValidate v e p = Inr w) \<longleftrightarrow>
            (\<forall>i < length (jsonElems v). conforms (jsonElems v ! i) (templateAt u i))"
        proof -
          have "(\<exists>w. jsonValidate v e p = Inr w) \<longleftrightarrow>
              firstError (map (\<lambda>i. jsonValidate (jsonElems v ! i) (templateAt u i)
                (Some (join [pathPart p, IndexPart i]))) [0 ..< length (jsonElems v)]) = None"
            using jsonValidate_array [OF noskip, of p] same ArrayType
            by (simp add: u_def [symmetric] split: option.splits)
          also have "\<dots> \<longleftrightarrow> (\<forall>i \<in> set [0 ..< length (jsonElems v)].
              \<exists>w. jsonValidate (jsonElems v ! i) (templateAt u i)
                (Some (join [pathPart p, IndexPart i])) = Inr w)"
            by (rule firstError_map_None_iff)
          also have "\<dots> \<longleftrightarrow>
              (\<forall>i < length (jsonElems v). conforms (jsonElems v ! i) (templateAt u i))"
            by (auto simp: ih)
          finally show ?thesis .
        qed
        ultimately show ?thesis using c by simp
      next
        case ObjectType
        have ih: "\<And>key. (\<exists>w. jsonValidate (jsonGet v key) (shapeGet u key)
              (Some (join [pathPart p, TextPart key])) = Inr w)
            \<longleftrightarrow> conforms (jsonGet v key) (shapeGet u key)"
        proof -
          fix key
          have "size (shapeGet u key) < size e"
            using size_shapeGet_object [of u key] same ObjectType su by simp
          then show "(\<exists>w. jsonValidate (jsonGet v key) (shapeGet u key)
              (Some (join [pathPart p, TextPart key])) = Inr w)
            \<longleftrightarrow> conforms (jsonGet v key) (shapeGet u key)"
            by (rule less.IH)
        qed
        let ?ok = "set (requiredKeys u) \<subseteq> fst ` set (jsonProps v) \<and>
           fst ` set (jsonProps v) \<subseteq> fst ` set (shapeProps u) \<and>
           (\<forall>key \<in> fst ` set (shapeProps u). conforms (jsonGet v key) (shapeGet u key))"
        have "wellTyped v u \<longleftrightarrow> ?ok"
          using same ObjectType by (subst wellTyped.simps) simp
        moreover have "(\<exists>w. jsonValidate v e p = Inr w) \<longleftrightarrow> ?ok"
        proof -
          have "(\<exists>w. jsonValidate v e p = Inr w) \<longleftrightarrow>
              minusList (requiredKeys u) (map fst (jsonProps v)) = [] \<and>
              minusList (map fst (jsonProps v)) (map fst (shapeProps u)) = [] \<and>
              firstError (map (\<lambda>key. jsonValidate (jsonGet v key) (shapeGet u key)
                (Some (join [pathPart p, TextPart key]))) (map fst (shapeProps u))) = None"
            using jsonValidate_object [OF noskip, of p] same ObjectType
            by (simp add: u_def [symmetric] split: option.splits)
          also have "\<dots> \<longleftrightarrow> ?ok"
            unfolding firstError_map_None_iff minusList_empty_iff by (simp add: ih)
          finally show ?thesis .
        qed
        ultimately show ?thesis using c by simp
      next
        case NullType
        then have "wellTyped v u" using same by (subst wellTyped.simps) simp
        moreover have "jsonValidate v e p = Inr v"
          using jsonValidate_scalar [OF noskip, of p] same NullType by (simp add: u_def)
        ultimately show ?thesis using c by simp
      next
        case NumberType
        then have "wellTyped v u" using same by (subst wellTyped.simps) simp
        moreover have "jsonValidate v e p = Inr v"
          using jsonValidate_scalar [OF noskip, of p] same NumberType by (simp add: u_def)
        ultimately show ?thesis using c by simp
      next
        case BooleanType
        then have "wellTyped v u" using same by (subst wellTyped.simps) simp
        moreover have "jsonValidate v e p = Inr v"
          using jsonValidate_scalar [OF noskip, of p] same BooleanType by (simp add: u_def)
        ultimately show ?thesis using c by simp
      qed
    qed
  qed
qed

lemma jsonValidate_conforms: "jsonValidate v e p = Inr v \<longleftrightarrow> conforms v e"
  using jsonValidate_accepts_iff [of v e p] jsonValidate_returns_actual [of v e p] by blast


lemma jsonValidate_EObject:
  "jsonValidate (JObject props) (EObject slots) path =
     (if minusList (requiredKeys (EObject slots)) (map fst props) \<noteq> []
      then Inl (missingError path (minusList (requiredKeys (EObject slots)) (map fst props)))
      else if minusList (map fst props) (map fst slots) \<noteq> []
      then Inl (unexpectedError path (minusList (map fst props) (map fst slots)))
      else (case firstError (map (\<lambda>key. jsonValidate (jsonGet (JObject props) key)
                  (shapeGet (EObject slots) key)
                  (Some (join [pathPart path, TextPart key]))) (map fst slots)) of
              Some err \<Rightarrow> Inl err
            | None \<Rightarrow> Inr (JObject props)))"
  using jsonValidate_object [of "EObject slots" "JObject props" path] by simp

lemma jsonValidate_EArray:
  "jsonValidate (JArray xs) (EArray ts) path =
     (case firstError (map (\<lambda>i. jsonValidate (xs ! i) (templateAt (EArray ts) i)
                (Some (join [pathPart path, IndexPart i]))) [0 ..< length xs]) of
        Some err \<Rightarrow> Inl err
      | None \<Rightarrow> Inr (JArray xs))"
  using jsonValidate_array [of "EArray ts" "JArray xs" path] by simp

lemma conforms_EObject:
  "conforms actual (EObject slots) \<longleftrightarrow>
     (\<exists>props. actual = JObject props \<and>
        set (requiredKeys (EObject slots)) \<subseteq> fst ` set props \<and>
        fst ` set props \<subseteq> fst ` set slots \<and>
        (\<forall>key \<in> fst ` set slots.
           conforms (jsonGet actual key) (shapeGet (EObject slots) key)))"
proof (cases actual)
  case (JObject props)
  then show ?thesis
    by (subst conforms.simps, subst wellTyped.simps) simp
qed (simp_all add: conforms.simps wellTyped.simps)

lemma conforms_slot:
  "conforms v slot \<longleftrightarrow>
     (isOptional slot \<and> (v = JUndefined \<or> v = JNull \<or> v = JString []))
     \<or> wellTyped v (unwrap slot)"
  by (simp add: conforms.simps skippable_def)

lemma wellTyped_type: "wellTyped v e \<Longrightarrow> jsonType v = shapeType e"
  by (subst (asm) wellTyped.simps) simp

lemma wellTyped_nonempty: "wellTyped v e \<Longrightarrow> v \<noteq> JString []"
  by (subst (asm) wellTyped.simps) (auto split: jtype.splits)

text \<open>
  Claim C5, amended. For every object shape: a body is accepted exactly when it is an object
  that has every required key, has no key outside the shape, and whose value under every
  key of the shape conforms to the slot, where a slot marked optional takes an absent,
  \<open>null\<close> or empty-string value without any type check. Whatever is accepted is returned
  as it came. A missing required key is rejected with the list of the missing keys, a key
  outside the shape with the list of the unexpected keys, and a value that is not skipped
  and has the wrong JSON type or is the empty string is rejected.
\<close>

theorem jsonValidate_object_contract:
  "(jsonValidate actual (EObject slots) path = Inr actual \<longleftrightarrow>
      (\<exists>props. actual = JObject props \<and>
         set (requiredKeys (EObject slots)) \<subseteq> fst ` set props \<and>
         fst ` set props \<subseteq> fst ` set slots \<and>
         (\<forall>key \<in> fst ` set slots.
            conforms (jsonGet actual key) (shapeGet (EObject slots) key))))
   \<and> (\<forall>w. jsonValidate actual (EObject slots) path = Inr w \<longrightarrow> w = actual)
   \<and> (\<forall>props. actual = JObject props \<and>
          \<not> set (requiredKeys (EObject slots)) \<subseteq> fst ` set props \<longrightarrow>
        jsonValidate actual (EObject slots) path =
          Inl (missingError path (minusList (requiredKeys (EObject slots)) (map fst props))))
   \<and> (\<forall>props. actual = JObject props \<and>
          set (requiredKeys (EObject slots)) \<subseteq> fst ` set props \<and>
          \<not> fst ` set props \<subseteq> fst ` set slots \<longrightarrow>
        jsonValidate actual (EObject slots) path =
          Inl (unexpectedError path (minusList (map fst props) (map fst slots))))
   \<and> (\<forall>key \<in> fst ` set slots.
          \<not> (isOptional (shapeGet (EObject slots) key) \<and> skippable (jsonGet actual key)) \<and>
          (jsonType (jsonGet actual key) \<noteq> shapeType (unwrap (shapeGet (EObject slots) key))
           \<or> jsonGet actual key = JString []) \<longrightarrow>
        (\<exists>err. jsonValidate actual (EObject slots) path = Inl err))"
proof (intro conjI allI impI ballI)
  show "jsonValidate actual (EObject slots) path = Inr actual \<longleftrightarrow>
      (\<exists>props. actual = JObject props \<and>
         set (requiredKeys (EObject slots)) \<subseteq> fst ` set props \<and>
         fst ` set props \<subseteq> fst ` set slots \<and>
         (\<forall>key \<in> fst ` set slots.
            conforms (jsonGet actual key) (shapeGet (EObject slots) key)))"
    by (simp only: jsonValidate_conforms conforms_EObject)
next
  fix w assume "jsonValidate actual (EObject slots) path = Inr w"
  then show "w = actual" by (rule jsonValidate_returns_actual)
next
  fix props
  assume "actual = JObject props \<and> \<not> set (requiredKeys (EObject slots)) \<subseteq> fst ` set props"
  then show "jsonValidate actual (EObject slots) path =
      Inl (missingError path (minusList (requiredKeys (EObject slots)) (map fst props)))"
    by (simp add: jsonValidate_EObject minusList_empty_iff)
next
  fix props
  assume "actual = JObject props \<and> set (requiredKeys (EObject slots)) \<subseteq> fst ` set props \<and>
          \<not> fst ` set props \<subseteq> fst ` set slots"
  then show "jsonValidate actual (EObject slots) path =
      Inl (unexpectedError path (minusList (map fst props) (map fst slots)))"
    by (simp add: jsonValidate_EObject minusList_empty_iff)
next
  fix key
  assume key: "key \<in> fst ` set slots"
    and bad: "\<not> (isOptional (shapeGet (EObject slots) key) \<and> skippable (jsonGet actual key)) \<and>
          (jsonType (jsonGet actual key) \<noteq> shapeType (unwrap (shapeGet (EObject slots) key))
           \<or> jsonGet actual key = JString [])"
  have "\<not> conforms (jsonGet actual key) (shapeGet (EObject slots) key)"
    using bad wellTyped_type wellTyped_nonempty by (auto simp: conforms.simps)
  with key have "\<not> conforms actual (EObject slots)"
    unfolding conforms_EObject by blast
  then have "\<not> (\<exists>w. jsonValidate actual (EObject slots) path = Inr w)"
    by (simp only: jsonValidate_accepts_iff not_False_eq_True)
  then show "\<exists>err. jsonValidate actual (EObject slots) path = Inl err"
    by (cases "jsonValidate actual (EObject slots) path") auto
qed


lemmas jsonValidate_eval =
  jsonValidate_EObject jsonValidate_EArray jsonValidate_skip jsonValidate_mismatch
  jsonValidate_string jsonValidate_scalar requiredKeys_def minusList_def shapeGet_def jsonGet_def
  skippable_def templateAt_def

text \<open>
  Claim C5 as worded fails: a body giving \<open>null\<close> under the optional string key
  \<open>firstName\<close> has a value of the wrong JSON type, and is accepted.
\<close>

theorem jsonValidate_optional_null_counterexample:
  "\<not> (jsonValidate
          (JObject [(''firstName'', JNull), (''username'', JString ''alice''),
                    (''password'', JString ''secret'')])
          (EObject usersShape) None
        = Inr (JObject [(''firstName'', JNull), (''username'', JString ''alice''),
                    (''password'', JString ''secret'')])
      \<longleftrightarrow> acceptsAsClaimed usersShape
          (JObject [(''firstName'', JNull), (''username'', JString ''alice''),
                    (''password'', JString ''secret'')]))"
proof -
  have "jsonValidate
          (JObject [(''firstName'', JNull), (''username'', JString ''alice''),
                    (''password'', JString ''secret'')])
          (EObject usersShape) None
        = Inr (JObject [(''firstName'', JNull), (''username'', JString ''alice''),
                    (''password'', JString ''secret'')])"
    by (simp add: jsonValidate_eval usersShape_def)
  moreover have "\<not> acceptsAsClaimed usersShape
          (JObject [(''firstName'', JNull), (''username'', JString ''alice''),
                    (''password'', JString ''secret'')])"
    by (simp add: acceptsAsClaimed_def usersShape_def shapeGet_def jsonGet_def)
  ultimately show ?thesis by simp
qed

text \<open>The contract at four bodies for the shape of \<open>POST /users\<close>.\<close>

theorem jsonValidate_object_contract_witness:
  "jsonValidate
     (JObject [(''username'', JString ''alice''), (''password'', JString ''secret''),
               (''lastName'', JString [])])
     (EObject usersShape) None
   = Inr (JObject [(''username'', JString ''alice''), (''password'', JString ''secret''),
               (''lastName'', JString [])])
   \<and> jsonValidate (JObject [(''username'', JString ''alice'')]) (EObject usersShape) None
       = Inl (missingError None [''password''])
   \<and> jsonValidate (JObject [(''username'', JString ''alice''), (''password'', JString ''secret''),
               (''admin'', JBool True)]) (EObject usersShape) None
       = Inl (unexpectedError None [''admin''])
   \<and> (\<exists>err. jsonValidate (JObject [(''username'', JString ''alice''), (''password'', JNumber 7)])
          (EObject usersShape) None = Inl err)"
proof -
  let ?ok = "JObject [(''username'', JString ''alice''), (''password'', JString ''secret''),
               (''lastName'', JString [])]"
  let ?short = "JObject [(''username'', JString ''alice'')]"
  let ?extra = "JObject [(''username'', JString ''alice''), (''password'', JString ''secret''),
               (''admin'', JBool True)]"
  let ?typed = "JObject [(''username'', JString ''alice''), (''password'', JNumber 7)]"
  have keys: "fst ` set usersShape = {''firstName'', ''lastName'', ''username'', ''password''}"
    by (auto simp: usersShape_def)
  have req: "requiredKeys (EObject usersShape) = [''username'', ''password'']"
    by (simp add: requiredKeys_def usersShape_def shapeGet_def)
  have "\<forall>key \<in> fst ` set usersShape. conforms (jsonGet ?ok key) (shapeGet (EObject usersShape) key)"
    unfolding keys
    by (simp add: usersShape_def shapeGet_def jsonGet_def conforms.simps wellTyped.simps
        skippable_def)
  then have a: "jsonValidate ?ok (EObject usersShape) None = Inr ?ok"
    using jsonValidate_object_contract [of ?ok usersShape None] req keys by simp
  have b: "jsonValidate ?short (EObject usersShape) None = Inl (missingError None [''password''])"
    using jsonValidate_object_contract [of ?short usersShape None] req
    by (simp add: minusList_def)
  have c: "jsonValidate ?extra (EObject usersShape) None = Inl (unexpectedError None [''admin''])"
    using jsonValidate_object_contract [of ?extra usersShape None] req keys
    by (simp add: minusList_def usersShape_def)
  have d: "\<exists>err. jsonValidate ?typed (EObject usersShape) None = Inl err"
  proof -
    have "''password'' \<in> fst ` set usersShape" unfolding keys by simp
    moreover have "\<not> (isOptional (shapeGet (EObject usersShape) ''password'')
          \<and> skippable (jsonGet ?typed ''password''))
        \<and> (jsonType (jsonGet ?typed ''password'')
              \<noteq> shapeType (unwrap (shapeGet (EObject usersShape) ''password''))
           \<or> jsonGet ?typed ''password'' = JString [])"
      by (simp add: usersShape_def shapeGet_def jsonGet_def)
    ultimately show ?thesis
      using jsonValidate_object_contract [of ?typed usersShape None] by blast
  qed
  from a b c d show ?thesis by blast
qed


lemma two_mod_two: "(2::nat) mod Suc (Suc 0) = 0"
  by (simp add: numeral_2_eq_2)

lemma jsonValidate_total: "(\<exists>w. jsonValidate v e p = Inr w) \<longleftrightarrow> jsonValidate v e p = Inr v"
  using jsonValidate_returns_actual by blast

text \<open>
  Claim C7. Against a template that is not empty, element \<open>i\<close> of the actual array is
  validated against template element \<open>i mod length\<close>: the array is accepted exactly when
  each of these calls accepts, and the error of the first call that fails is the error
  of the whole. So \<open>[a,b,c]\<close> against \<open>[T]\<close> checks all three against \<open>T\<close>, and
  against \<open>[T1,T2]\<close> it checks \<open>a\<close> against \<open>T1\<close>, \<open>b\<close> against \<open>T2\<close> and \<open>c\<close> against \<open>T1\<close>.
\<close>

theorem jsonValidate_array_cycles:
  assumes "template \<noteq> []"
  shows
   "(jsonValidate (JArray xs) (EArray template) path = Inr (JArray xs) \<longleftrightarrow>
       (\<forall>i < length xs.
          jsonValidate (xs ! i) (template ! (i mod length template)) (elemPath path i)
            = Inr (xs ! i)))
    \<and> (\<forall>i err. i < length xs \<and>
          jsonValidate (xs ! i) (template ! (i mod length template)) (elemPath path i) = Inl err \<and>
          (\<forall>j < i. jsonValidate (xs ! j) (template ! (j mod length template)) (elemPath path j)
              = Inr (xs ! j))
        \<longrightarrow> jsonValidate (JArray xs) (EArray template) path = Inl err)
    \<and> (jsonValidate (JArray [a, b, c]) (EArray [T]) path = Inr (JArray [a, b, c]) \<longleftrightarrow>
          jsonValidate a T (elemPath path 0) = Inr a \<and>
          jsonValidate b T (elemPath path 1) = Inr b \<and>
          jsonValidate c T (elemPath path 2) = Inr c)
    \<and> (jsonValidate (JArray [a, b, c]) (EArray [T1, T2]) path = Inr (JArray [a, b, c]) \<longleftrightarrow>
          jsonValidate a T1 (elemPath path 0) = Inr a \<and>
          jsonValidate b T2 (elemPath path 1) = Inr b \<and>
          jsonValidate c T1 (elemPath path 2) = Inr c)"
proof -
  let ?call = "\<lambda>ts ys i. jsonValidate (ys ! i) (templateAt (EArray ts) i) (elemPath path i)"
  have at: "\<And>i. templateAt (EArray template) i = template ! (i mod length template)"
    using assms by (simp add: templateAt_def)
  have accept: "\<And>ts ys. jsonValidate (JArray ys) (EArray ts) path = Inr (JArray ys) \<longleftrightarrow>
      (\<forall>i < length ys. ?call ts ys i = Inr (ys ! i))"
  proof -
    fix ts ys
    have "jsonValidate (JArray ys) (EArray ts) path = Inr (JArray ys) \<longleftrightarrow>
        firstError (map (?call ts ys) [0 ..< length ys]) = None"
      by (simp add: jsonValidate_EArray elemPath_def split: option.splits)
    also have "\<dots> \<longleftrightarrow> (\<forall>i \<in> set [0 ..< length ys]. \<exists>w. ?call ts ys i = Inr w)"
      by (rule firstError_map_None_iff)
    also have "\<dots> \<longleftrightarrow> (\<forall>i < length ys. ?call ts ys i = Inr (ys ! i))"
      by (auto simp: jsonValidate_total)
    finally show "jsonValidate (JArray ys) (EArray ts) path = Inr (JArray ys) \<longleftrightarrow>
      (\<forall>i < length ys. ?call ts ys i = Inr (ys ! i))" .
  qed
  have first: "jsonValidate (JArray xs) (EArray template) path = Inr (JArray xs) \<longleftrightarrow>
       (\<forall>i < length xs.
          jsonValidate (xs ! i) (template ! (i mod length template)) (elemPath path i)
            = Inr (xs ! i))"
    using accept [of xs template] by (simp only: at)
  have second: "\<forall>i err. i < length xs \<and>
          jsonValidate (xs ! i) (template ! (i mod length template)) (elemPath path i) = Inl err \<and>
          (\<forall>j < i. jsonValidate (xs ! j) (template ! (j mod length template)) (elemPath path j)
              = Inr (xs ! j))
        \<longrightarrow> jsonValidate (JArray xs) (EArray template) path = Inl err"
  proof (intro allI impI)
    fix i err
    assume h: "i < length xs \<and>
          jsonValidate (xs ! i) (template ! (i mod length template)) (elemPath path i) = Inl err \<and>
          (\<forall>j < i. jsonValidate (xs ! j) (template ! (j mod length template)) (elemPath path j)
              = Inr (xs ! j))"
    let ?rs = "map (?call template xs) [0 ..< length xs]"
    have "i < length ?rs" using h by simp
    moreover have "?rs ! i = Inl err" using h by (simp add: at)
    moreover have "\<forall>j < i. \<exists>v. ?rs ! j = Inr v" using h by (simp add: at)
    ultimately have "firstError ?rs = Some err" by (rule firstError_first)
    then show "jsonValidate (JArray xs) (EArray template) path = Inl err"
      by (simp add: jsonValidate_EArray elemPath_def)
  qed
  have three: "\<And>P. (\<forall>i < Suc (Suc (Suc 0)). P i) \<longleftrightarrow> P 0 \<and> P 1 \<and> P 2"
    by (auto simp: less_Suc_eq numeral_2_eq_2)
  have third: "jsonValidate (JArray [a, b, c]) (EArray [T]) path = Inr (JArray [a, b, c]) \<longleftrightarrow>
          jsonValidate a T (elemPath path 0) = Inr a \<and>
          jsonValidate b T (elemPath path 1) = Inr b \<and>
          jsonValidate c T (elemPath path 2) = Inr c"
    unfolding accept by (simp add: three templateAt_def)
  have fourth: "jsonValidate (JArray [a, b, c]) (EArray [T1, T2]) path = Inr (JArray [a, b, c]) \<longleftrightarrow>
          jsonValidate a T1 (elemPath path 0) = Inr a \<and>
          jsonValidate b T2 (elemPath path 1) = Inr b \<and>
          jsonValidate c T1 (elemPath path 2) = Inr c"
    unfolding accept by (simp add: three templateAt_def two_mod_two)
  from first second third fourth show ?thesis by blast
qed

text \<open>A template of two elements against arrays of three.\<close>

theorem jsonValidate_array_cycles_witness:
  "jsonValidate (JArray [JString ''a'', JNumber 1, JString ''c''])
      (EArray [EString ''x'', ENumber 0]) None
     = Inr (JArray [JString ''a'', JNumber 1, JString ''c''])
   \<and> jsonValidate (JArray [JString ''a'', JNumber 1, JNumber 2])
      (EArray [EString ''x'', ENumber 0]) None
     = Inl (typeError (Some ''2'') StringType NumberType (EString ''x''))"
proof -
  let ?ts = "[EString ''x'', ENumber 0]"
  have ne: "?ts \<noteq> []" by simp
  have p: "elemPath None 0 = Some []" "elemPath None 1 = Some ''1''" "elemPath None 2 = Some ''2''"
    by (simp_all add: elemPath_def join_def digitChar_def digitClass_def)
  have three: "\<And>P. (\<forall>i < Suc (Suc (Suc 0)). P i) \<longleftrightarrow> P 0 \<and> P 1 \<and> P 2"
    by (auto simp: less_Suc_eq numeral_2_eq_2)
  have a: "jsonValidate (JArray [JString ''a'', JNumber 1, JString ''c'']) (EArray ?ts) None
     = Inr (JArray [JString ''a'', JNumber 1, JString ''c''])"
    using jsonValidate_array_cycles [OF ne, of "[JString ''a'', JNumber 1, JString ''c'']" None]
    by (simp add: three p jsonValidate_string jsonValidate_scalar two_mod_two)
  have "jsonValidate ([JString ''a'', JNumber 1, JNumber 2] ! 2) (?ts ! (2 mod length ?ts))
          (elemPath None 2)
        = Inl (typeError (Some ''2'') StringType NumberType (EString ''x''))"
    by (simp add: p jsonValidate_mismatch two_mod_two)
  moreover have "\<forall>j < 2. jsonValidate ([JString ''a'', JNumber 1, JNumber 2] ! j)
        (?ts ! (j mod length ?ts)) (elemPath None j) = Inr ([JString ''a'', JNumber 1, JNumber 2] ! j)"
    by (simp add: less_Suc_eq numeral_2_eq_2 p jsonValidate_string jsonValidate_scalar)
  ultimately have b: "jsonValidate (JArray [JString ''a'', JNumber 1, JNumber 2]) (EArray ?ts) None
     = Inl (typeError (Some ''2'') StringType NumberType (EString ''x''))"
    using jsonValidate_array_cycles [OF ne, of "[JString ''a'', JNumber 1, JNumber 2]" None]
    by (metis length_Cons less_Suc_eq list.size(3) numeral_2_eq_2)
  from a b show ?thesis by simp
qed

section \<open>The token cipher\<close>

lemma slice_iv: "length iv = ivSize \<Longrightarrow> bufferSlice (iv @ tail) 0 ivSize = iv"
  by (simp add: bufferSlice_def)

lemma slice_tag:
  "length iv = ivSize \<Longrightarrow> length tag = tagSize \<Longrightarrow>
   bufferSlice (iv @ tag @ tail) ivSize (ivSize + tagSize) = tag"
  by (simp add: bufferSlice_def)

lemma slice_encrypted:
  "length iv = ivSize \<Longrightarrow> length tag = tagSize \<Longrightarrow>
   bufferSliceFrom (iv @ tag @ tail) (ivSize + tagSize) = tail"
  by (simp add: bufferSliceFrom_def)

lemma codecsInvert_toyEnv: "codecsInvert toyEnv"
  by (simp add: codecsInvert_def toyEnv_def)

lemma gcmInverts_toyEnv: "gcmInverts toyEnv"
  by (simp add: gcmInverts_def toyEnv_def toyTag_def Let_def tagSize_def)

lemma jsonSerializable_toyPayload: "jsonSerializable toyEnv toyPayload"
  by (simp add: jsonSerializable_def toyEnv_def)

text \<open>
  Claim C2. For a payload that is JSON-serializable, a nonce of \<open>ivSize\<close> bytes as
  \<open>randomBytes\<close> gives it, and a library whose decoders undo its encoders and whose
  AES-GCM deciphers what it enciphered: \<open>encrypt\<close> returns the base64 text of
  nonce, then tag (16 bytes), then ciphertext, and \<open>decrypt\<close> of that token, which splits
  at the offsets 16 and 32, returns the payload.
\<close>

theorem decrypt_encrypt:
  assumes iv: "length iv = ivSize"
    and p: "jsonSerializable env p"
    and codecs: "codecsInvert env"
    and gcm: "gcmInverts env"
  shows "\<exists>str encrypted tag.
      jsonStringify env p = Some str \<and>
      cipherGcm env (secretKey env) iv (utf8Encode env str) = (encrypted, tag) \<and>
      length iv = 16 \<and> length tag = 16 \<and>
      encrypt env iv p = Inr (base64Encode env (iv @ tag @ encrypted)) \<and>
      decrypt env (base64Encode env (iv @ tag @ encrypted)) = Inr p"
proof -
  from p obtain str where str: "jsonStringify env p = Some str" "jsonParse env str = Some p"
    by (auto simp: jsonSerializable_def split: option.splits)
  obtain encrypted tag
    where c: "cipherGcm env (secretKey env) iv (utf8Encode env str) = (encrypted, tag)"
    by (cases "cipherGcm env (secretKey env) iv (utf8Encode env str)") auto
  from gcm have "length (snd (cipherGcm env (secretKey env) iv (utf8Encode env str))) = tagSize"
    and "decipherGcm env (secretKey env) iv
           (snd (cipherGcm env (secretKey env) iv (utf8Encode env str)))
           (fst (cipherGcm env (secretKey env) iv (utf8Encode env str)))
         = Some (utf8Encode env str)"
    unfolding gcmInverts_def by blast+
  with c have tag: "length tag = tagSize"
    and dec: "decipherGcm env (secretKey env) iv tag encrypted = Some (utf8Encode env str)"
    by simp_all
  let ?token = "base64Encode env (iv @ tag @ encrypted)"
  have e: "encrypt env iv p = Inr ?token"
    by (simp add: encrypt_def str c tag)
  have b: "base64Decode env ?token = Some (iv @ tag @ encrypted)"
    using codecs by (simp add: codecsInvert_def)
  have u: "utf8Decode env (utf8Encode env str) = str"
    using codecs by (simp add: codecsInvert_def)
  have d: "decrypt env ?token = Inr p"
    by (simp add: decrypt_def b Let_def slice_iv [OF iv] slice_tag [OF iv tag]
        slice_encrypted [OF iv tag] iv tag dec u str)
  have "length iv = 16" "length tag = 16"
    using iv tag by (simp_all add: ivSize_def tagSize_def)
  with str(1) c e d show ?thesis by blast
qed

text \<open>The round trip in the small environment.\<close>

theorem decrypt_encrypt_witness:
  "encrypt toyEnv ''0123456789abcdef'' toyPayload
     = Inr (''0123456789abcdef'' @ ''3333333333333333'' @ ''}7:dInoisses{'')
   \<and> decrypt toyEnv (''0123456789abcdef'' @ ''3333333333333333'' @ ''}7:dInoisses{'')
     = Inr toyPayload"
proof -
  have iv: "length ''0123456789abcdef'' = ivSize" by (simp add: ivSize_def)
  have s: "jsonStringify toyEnv toyPayload = Some toyText" by (simp add: toyEnv_def)
  have c: "cipherGcm toyEnv (secretKey toyEnv) ''0123456789abcdef'' (utf8Encode toyEnv toyText)
      = (''}7:dInoisses{'', ''3333333333333333'')"
    by (simp add: toyEnv_def toyText_def toyTag_def Let_def digitChar_def digitClass_def)
  have b: "\<And>x. base64Encode toyEnv x = x" by (simp add: toyEnv_def)
  from decrypt_encrypt [OF iv jsonSerializable_toyPayload codecsInvert_toyEnv gcmInverts_toyEnv]
  obtain str encrypted tag where h:
    "jsonStringify toyEnv toyPayload = Some str"
    "cipherGcm toyEnv (secretKey toyEnv) ''0123456789abcdef'' (utf8Encode toyEnv str)
       = (encrypted, tag)"
    "encrypt toyEnv ''0123456789abcdef'' toyPayload
       = Inr (base64Encode toyEnv (''0123456789abcdef'' @ tag @ encrypted))"
    "decrypt toyEnv (base64Encode toyEnv (''0123456789abcdef'' @ tag @ encrypted))
       = Inr toyPayload"
    by blast
  from h(1) s have "str = toyText" by simp
  with h(2) c have "encrypted = ''}7:dInoisses{''" "tag = ''3333333333333333''" by simp_all
  with h(3,4) show ?thesis by (simp add: b)
qed

text \<open>
  Claim C6. Whenever \<open>decrypt\<close> fails, the error is the one value \<open>invalidAuth\<close>, with
  code \<open>invalid-auth\<close> and message \<open>Invalid authentication\<close>: so it is when decoding
  throws, when the decoded buffer is shorter than nonce and tag together, when deciphering
  or the tag check fails, and when the plaintext is not JSON.
\<close>

theorem decrypt_failure_uniform:
  "(\<forall>err. decrypt env token = Inl err \<longrightarrow> err = invalidAuth)
   \<and> code invalidAuth = ''invalid-auth''
   \<and> message invalidAuth = ''Invalid authentication''
   \<and> (base64Decode env token = None \<longrightarrow> decrypt env token = Inl invalidAuth)
   \<and> (\<forall>buffer. base64Decode env token = Some buffer \<and> length buffer < ivSize + tagSize
        \<longrightarrow> decrypt env token = Inl invalidAuth)
   \<and> (\<forall>buffer. base64Decode env token = Some buffer \<and>
          decipherGcm env (secretKey env) (bufferSlice buffer 0 ivSize)
            (bufferSlice buffer ivSize (ivSize + tagSize))
            (bufferSliceFrom buffer (ivSize + tagSize)) = None
        \<longrightarrow> decrypt env token = Inl invalidAuth)
   \<and> (\<forall>buffer plain. base64Decode env token = Some buffer \<and>
          decipherGcm env (secretKey env) (bufferSlice buffer 0 ivSize)
            (bufferSlice buffer ivSize (ivSize + tagSize))
            (bufferSliceFrom buffer (ivSize + tagSize)) = Some plain \<and>
          jsonParse env (utf8Decode env plain) = None
        \<longrightarrow> decrypt env token = Inl invalidAuth)"
proof (intro conjI allI impI)
  fix err assume "decrypt env token = Inl err"
  then show "err = invalidAuth"
    by (auto simp: decrypt_def Let_def split: option.splits if_splits)
next
  show "code invalidAuth = ''invalid-auth''" by (simp add: invalidAuth_def new_ClientError_def)
next
  show "message invalidAuth = ''Invalid authentication''"
    by (simp add: invalidAuth_def new_ClientError_def)
next
  assume "base64Decode env token = None"
  then show "decrypt env token = Inl invalidAuth" by (simp add: decrypt_def)
next
  fix buffer
  assume "base64Decode env token = Some buffer \<and> length buffer < ivSize + tagSize"
  then show "decrypt env token = Inl invalidAuth"
    by (auto simp: decrypt_def Let_def bufferSlice_def ivSize_def tagSize_def)
next
  fix buffer
  assume "base64Decode env token = Some buffer \<and>
          decipherGcm env (secretKey env) (bufferSlice buffer 0 ivSize)
            (bufferSlice buffer ivSize (ivSize + tagSize))
            (bufferSliceFrom buffer (ivSize + tagSize)) = None"
  then show "decrypt env token = Inl invalidAuth"
    by (simp add: decrypt_def Let_def)
next
  fix buffer plain
  assume "base64Decode env token = Some buffer \<and>
          decipherGcm env (secretKey env) (bufferSlice buffer 0 ivSize)
            (bufferSlice buffer ivSize (ivSize + tagSize))
            (bufferSliceFrom buffer (ivSize + tagSize)) = Some plain \<and>
          jsonParse env (utf8Decode env plain) = None"
  then show "decrypt env token = Inl invalidAuth"
    by (simp add: decrypt_def Let_def)
qed

text \<open>Three tokens that fail in the small environment: too short, a wrong tag, and a
  plaintext that does not parse.\<close>

theorem decrypt_failure_uniform_witness:
  "decrypt toyEnv ''too short'' = Inl invalidAuth
   \<and> decrypt toyEnv (''0123456789abcdef'' @ ''4444444444444444'' @ ''}7:dInoisses{'')
       = Inl invalidAuth
   \<and> decrypt toyEnv (''0123456789abcdef'' @ ''1111111111111111'' @ ''not json {}'')
       = Inl invalidAuth
   \<and> invalidAuth = \<lparr> status = 400, code = ''invalid-auth'',
        message = ''Invalid authentication'', data = NoData, headers = [] \<rparr>"
proof -
  have d: "\<And>t. base64Decode toyEnv t = Some t" by (simp add: toyEnv_def)
  have a: "decrypt toyEnv ''too short'' = Inl invalidAuth"
    using decrypt_failure_uniform [of toyEnv "''too short''"] d
    by (simp add: ivSize_def tagSize_def)
  have "decipherGcm toyEnv (secretKey toyEnv)
         (bufferSlice (''0123456789abcdef'' @ ''4444444444444444'' @ ''}7:dInoisses{'') 0 ivSize)
         (bufferSlice (''0123456789abcdef'' @ ''4444444444444444'' @ ''}7:dInoisses{'') ivSize
            (ivSize + tagSize))
         (bufferSliceFrom (''0123456789abcdef'' @ ''4444444444444444'' @ ''}7:dInoisses{'')
            (ivSize + tagSize)) = None"
    by (simp add: toyEnv_def toyTag_def Let_def bufferSlice_def bufferSliceFrom_def ivSize_def
        tagSize_def digitChar_def digitClass_def)
  then have b: "decrypt toyEnv (''0123456789abcdef'' @ ''4444444444444444'' @ ''}7:dInoisses{'')
       = Inl invalidAuth"
    using decrypt_failure_uniform
      [of toyEnv "''0123456789abcdef'' @ ''4444444444444444'' @ ''}7:dInoisses{''"] d
    by blast
  have "decipherGcm toyEnv (secretKey toyEnv)
         (bufferSlice (''0123456789abcdef'' @ ''1111111111111111'' @ ''not json {}'') 0 ivSize)
         (bufferSlice (''0123456789abcdef'' @ ''1111111111111111'' @ ''not json {}'') ivSize
            (ivSize + tagSize))
         (bufferSliceFrom (''0123456789abcdef'' @ ''1111111111111111'' @ ''not json {}'')
            (ivSize + tagSize)) = Some ''}{ nosj ton''"
    by (simp add: toyEnv_def toyTag_def Let_def bufferSlice_def bufferSliceFrom_def ivSize_def
        tagSize_def digitChar_def digitClass_def)
  moreover have "jsonParse toyEnv (utf8Decode toyEnv ''}{ nosj ton'') = None"
    by (simp add: toyEnv_def toyText_def)
  ultimately have c: "decrypt toyEnv (''0123456789abcdef'' @ ''1111111111111111'' @ ''not json {}'')
       = Inl invalidAuth"
    using decrypt_failure_uniform
      [of toyEnv "''0123456789abcdef'' @ ''1111111111111111'' @ ''not json {}''"] d
    by blast
  have e: "invalidAuth = \<lparr> status = 400, code = ''invalid-auth'',
        message = ''Invalid authentication'', data = NoData, headers = [] \<rparr>"
    by (simp add: invalidAuth_def new_ClientError_def)
  from a b c e show ?thesis by blast
qed

section \<open>Permissions\<close>

lemma permissionMatches_iff:
  "permissionMatches uid listId p \<longleftrightarrow>
     permission_userId p = uid \<and> permission_listId p = listId"
  by (cases uid) (auto simp: permissionMatches_def)

lemma roles_rank:
  "indexOf roles ''read'' = 0" "indexOf roles ''write'' = 1" "indexOf roles ''owner'' = 2"
  by (simp_all add: roles_def)

lemma insufficientPerms_value:
  "insufficientPerms req =
     \<lparr> status = 401, code = ''insufficient-perms'', message = ''Insufficient permissions'',
       data = NoData,
       headers = (if xhr req then [] else [(''WWW-Authenticate'', basicChallenge)]) \<rparr>"
  by (simp add: insufficientPerms_def new_AuthError_def new_ClientError_def setHeader_def Let_def)

text \<open>
  Claim C1. In a database with one permission row for each pair of an identity and a list,
  \<open>checkPermissions\<close> succeeds exactly when there is a row for the list whose \<open>userId\<close> is
  the identity given (the row without a user when the identity is \<open>null\<close>, a row of that
  user otherwise) and whose role has a rank, in \<open>read\<close> (0), \<open>write\<close> (1), \<open>owner\<close> (2), that
  is at least the rank of the required role. Otherwise it fails with the code
  \<open>insufficient-perms\<close> and the status 401.
\<close>

theorem checkPermissions_iff:
  assumes "onePermissionPerPair db"
  shows
    "checkPermissions req db uid listId required =
       (if \<exists>p \<in> set (permissionsTable db).
              permission_userId p = uid \<and> permission_listId p = listId \<and>
              indexOf roles (permission_role p) \<ge> indexOf roles required
        then Inr ()
        else Inl \<lparr> status = 401, code = ''insufficient-perms'',
               message = ''Insufficient permissions'', data = NoData,
               headers = (if xhr req then [] else [(''WWW-Authenticate'', basicChallenge)]) \<rparr>)
     \<and> indexOf roles ''read'' = 0 \<and> indexOf roles ''write'' = 1 \<and> indexOf roles ''owner'' = 2"
proof -
  let ?rows = "filter (permissionMatches uid listId) (permissionsTable db)"
  let ?good = "\<exists>p \<in> set (permissionsTable db).
              permission_userId p = uid \<and> permission_listId p = listId \<and>
              indexOf roles (permission_role p) \<ge> indexOf roles required"
  have "checkPermissions req db uid listId required =
      (if ?good then Inr () else Inl (insufficientPerms req))"
  proof (cases ?rows)
    case Nil
    then have "\<forall>p \<in> set (permissionsTable db). \<not> permissionMatches uid listId p"
      by (simp add: filter_empty_conv)
    then have "\<not> ?good" by (auto simp: permissionMatches_iff)
    with Nil show ?thesis by (simp add: checkPermissions_def)
  next
    case (Cons row others)
    then have "row \<in> set ?rows" by simp
    then have row: "row \<in> set (permissionsTable db)" "permission_userId row = uid"
      "permission_listId row = listId"
      by (simp_all add: permissionMatches_iff)
    have only: "p = row" if "p \<in> set (permissionsTable db)" "permission_userId p = uid"
      "permission_listId p = listId" for p
      using assms that row unfolding onePermissionPerPair_def by blast
    have "?good \<longleftrightarrow> hasRole (permission_role row) required"
      unfolding hasRole_def using row only by blast
    with Cons show ?thesis by (simp add: checkPermissions_def)
  qed
  then have "checkPermissions req db uid listId required =
       (if ?good then Inr ()
        else Inl \<lparr> status = 401, code = ''insufficient-perms'',
               message = ''Insufficient permissions'', data = NoData,
               headers = (if xhr req then [] else [(''WWW-Authenticate'', basicChallenge)]) \<rparr>)"
    by (simp only: insufficientPerms_value)
  with roles_rank show ?thesis by blast
qed

text \<open>A \<open>read\<close> row fails a check that requires \<open>write\<close>, a \<open>write\<close> row passes one that
  requires \<open>read\<close>, and a user without a row fails.\<close>

theorem checkPermissions_iff_witness:
  "checkPermissions plainRequest permsDb (Some 1) 10 ''write''
     = Inl \<lparr> status = 401, code = ''insufficient-perms'',
             message = ''Insufficient permissions'', data = NoData, headers = [] \<rparr>
   \<and> checkPermissions plainRequest permsDb None 10 ''read'' = Inr ()
   \<and> checkPermissions plainRequest permsDb (Some 2) 10 ''read''
     = Inl \<lparr> status = 401, code = ''insufficient-perms'',
             message = ''Insufficient permissions'', data = NoData, headers = [] \<rparr>"
proof -
  have u: "onePermissionPerPair permsDb"
    by (simp add: onePermissionPerPair_def permsDb_def)
  have a: "checkPermissions plainRequest permsDb (Some 1) 10 ''write''
     = Inl \<lparr> status = 401, code = ''insufficient-perms'',
             message = ''Insufficient permissions'', data = NoData, headers = [] \<rparr>"
    using checkPermissions_iff [OF u, of plainRequest "Some 1" 10]
    by (simp add: permsDb_def plainRequest_def roles_def)
  have b: "checkPermissions plainRequest permsDb None 10 ''read'' = Inr ()"
    using checkPermissions_iff [OF u, of plainRequest None 10]
    by (simp add: permsDb_def plainRequest_def roles_def)
  have c: "checkPermissions plainRequest permsDb (Some 2) 10 ''read''
     = Inl \<lparr> status = 401, code = ''insufficient-perms'',
             message = ''Insufficient permissions'', data = NoData, headers = [] \<rparr>"
    using checkPermissions_iff [OF u, of plainRequest "Some 2" 10]
    by (simp add: permsDb_def plainRequest_def roles_def)
  from a b c show ?thesis by simp
qed


section \<open>Authentication\<close>

lemma authError_value:
  "new_AuthError req \<lparr> init_status = Some st, init_code = c, init_message = m,
       init_data = d, init_headers = None \<rparr> =
     \<lparr> status = st, code = c, message = m, data = d,
       headers = (if xhr req then [] else [(''WWW-Authenticate'', basicChallenge)]) \<rparr>"
  by (simp add: new_AuthError_def new_ClientError_def setHeader_def Let_def)

lemma bearer_header:
  "\<not> startsWith (''Bearer '' @ token) ''Basic ''"
  "startsWith (''Bearer '' @ token) ''Bearer ''"
  "stringSliceFrom (''Bearer '' @ token) 7 = token"
  by (simp_all add: startsWith_def stringSliceFrom_def sliceIndex_def)

lemma authenticate_bearer:
  assumes "authorization req = Some (''Bearer '' @ token)"
    and "\<not> isString require \<or> require = RequireType ''token''"
  shows "authenticate env db now req require =
     (case decrypt env token of
        Inl err \<Rightarrow> Inl (Client err)
      | Inr payload \<Rightarrow>
          (case destructureSessionId payload of
             Inl err \<Rightarrow> Inl err
           | Inr sid \<Rightarrow>
               (case filter (\<lambda>s. sqlIdEq env (session_id s) sid \<and>
                                  session_expirationDate s \<ge> now) (sessionsTable db) of
                  [] \<Rightarrow> Inl (Client
                         \<lparr> status = 401, code = ''expired-session'',
                           message = ''Session has expired'', data = NoData,
                           headers = (if xhr req then []
                                      else [(''WWW-Authenticate'', basicChallenge)]) \<rparr>)
                | row # others \<Rightarrow>
                    Inr \<lparr> type = ''token'', userId = Some (session_userId row),
                          sessionId = Some sid \<rparr>)))"
  using assms
  by (simp add: authenticate_def bearer_header authError_value Let_def del: append.simps
      split: sum.splits list.splits)

lemma authenticate_no_header:
  "authorization req = None \<Longrightarrow>
   authenticate env db now req (RequireBool False)
     = Inr \<lparr> type = ''none'', userId = None, sessionId = None \<rparr>"
  by (simp add: authenticate_def)

lemma decrypt_toyToken: "decrypt toyEnv toyToken = Inr toyPayload"
  by (simp add: decrypt_def toyEnv_def toyToken_def toyTag_def toyText_def Let_def
      bufferSlice_def bufferSliceFrom_def ivSize_def tagSize_def digitChar_def digitClass_def)

lemma sessionId_toyPayload: "destructureSessionId toyPayload = Inr (JString ''7'')"
  by (simp add: toyPayload_def jsonGet_def)

text \<open>
  Claim C4, amended. A session is invalid exactly when \<open>now > expirationDate\<close>. For a
  bearer token that opens to a session id, authentication succeeds exactly when a session
  with that id exists whose expiration is not before \<open>now\<close>, and it then yields that
  session's user; otherwise it fails with the code \<open>expired-session\<close> and the status 401.
  A session whose expiration has passed behaves as an absent one: purging the expired
  sessions does not change the outcome.
\<close>

theorem authenticate_session_expiry:
  assumes "authorization req = Some (''Bearer '' @ token)"
    and "\<not> isString require \<or> require = RequireType ''token''"
    and "decrypt env token = Inr payload"
    and "destructureSessionId payload = Inr sid"
  shows
    "((\<exists>who. authenticate env db now req require = Inr who) \<longleftrightarrow>
        (\<exists>s \<in> set (sessionsTable db).
            sqlIdEq env (session_id s) sid \<and> now \<le> session_expirationDate s))
     \<and> (\<not> (\<exists>s \<in> set (sessionsTable db).
            sqlIdEq env (session_id s) sid \<and> now \<le> session_expirationDate s) \<longrightarrow>
         authenticate env db now req require =
           Inl (Client \<lparr> status = 401, code = ''expired-session'',
                  message = ''Session has expired'', data = NoData,
                  headers = (if xhr req then []
                             else [(''WWW-Authenticate'', basicChallenge)]) \<rparr>))
     \<and> (\<forall>who. authenticate env db now req require = Inr who \<longrightarrow>
           type who = ''token'' \<and> sessionId who = Some sid \<and>
           (\<exists>s \<in> set (sessionsTable db).
              sqlIdEq env (session_id s) sid \<and> now \<le> session_expirationDate s \<and>
              userId who = Some (session_userId s)))
     \<and> authenticate env (purgeSessions now db) now req require
         = authenticate env db now req require"
proof -
  let ?live = "\<lambda>s. sqlIdEq env (session_id s) sid \<and> session_expirationDate s \<ge> now"
  let ?rows = "filter ?live (sessionsTable db)"
  let ?expired = "Inl (Client \<lparr> status = 401, code = ''expired-session'',
                  message = ''Session has expired'', data = NoData,
                  headers = (if xhr req then []
                             else [(''WWW-Authenticate'', basicChallenge)]) \<rparr>)"
  have eq: "\<And>d. authenticate env d now req require =
      (case filter ?live (sessionsTable d) of
         [] \<Rightarrow> ?expired
       | row # others \<Rightarrow> Inr \<lparr> type = ''token'', userId = Some (session_userId row),
                          sessionId = Some sid \<rparr>)"
    using authenticate_bearer [OF assms(1,2)] assms(3,4) by simp
  have none: "?rows = [] \<longleftrightarrow> \<not> (\<exists>s \<in> set (sessionsTable db). ?live s)"
    by (simp add: filter_empty_conv)
  have first: "(\<exists>who. authenticate env db now req require = Inr who) \<longleftrightarrow>
        (\<exists>s \<in> set (sessionsTable db).
            sqlIdEq env (session_id s) sid \<and> now \<le> session_expirationDate s)"
    using none by (cases ?rows) (simp_all add: eq)
  have second: "\<not> (\<exists>s \<in> set (sessionsTable db).
            sqlIdEq env (session_id s) sid \<and> now \<le> session_expirationDate s) \<longrightarrow>
         authenticate env db now req require = ?expired"
    using none by (cases ?rows) (simp_all add: eq)
  have third: "\<forall>who. authenticate env db now req require = Inr who \<longrightarrow>
           type who = ''token'' \<and> sessionId who = Some sid \<and>
           (\<exists>s \<in> set (sessionsTable db).
              sqlIdEq env (session_id s) sid \<and> now \<le> session_expirationDate s \<and>
              userId who = Some (session_userId s))"
  proof (cases ?rows)
    case Nil
    then show ?thesis by (simp add: eq)
  next
    case (Cons row others)
    then have "row \<in> set ?rows" by simp
    then have "row \<in> set (sessionsTable db)" "?live row" by simp_all
    with Cons show ?thesis by (auto simp: eq)
  qed
  have "filter ?live (sessionsTable (purgeSessions now db)) = ?rows"
    by (auto simp: purgeSessions_def intro: filter_cong)
  then have fourth: "authenticate env (purgeSessions now db) now req require
         = authenticate env db now req require"
    by (simp only: eq)
  from first second third fourth show ?thesis by blast
qed


lemma bearerRequest_allowed:
  "authorization bearerRequest = Some (''Bearer '' @ toyToken)"
  "\<not> isString (RequireBool True) \<or> RequireBool True = RequireType ''token''"
  by (simp_all add: bearerRequest_def)

lemma sqlIdEq_toyEnv: "sqlIdEq toyEnv n v \<longleftrightarrow> v = JString (showNat n)"
  by (simp add: toyEnv_def)

lemma sessionDb_live:
  "filter (\<lambda>s. sqlIdEq toyEnv (session_id s) (JString ''7'') \<and> now \<le> session_expirationDate s)
     (sessionsTable sessionDb)
   = (if now \<le> 100 then sessionsTable sessionDb else [])"
  by (simp add: sessionDb_def sqlIdEq_toyEnv digitChar_def digitClass_def)

text \<open>The session that expires at second 100, used at seconds 99 and 101.\<close>

theorem authenticate_session_expiry_witness:
  "authenticate toyEnv sessionDb 99 bearerRequest (RequireBool True)
     = Inr \<lparr> type = ''token'', userId = Some 3, sessionId = Some (JString ''7'') \<rparr>
   \<and> authenticate toyEnv sessionDb 101 bearerRequest (RequireBool True)
     = Inl (Client \<lparr> status = 401, code = ''expired-session'',
              message = ''Session has expired'', data = NoData, headers = [] \<rparr>)
   \<and> authenticate toyEnv (purgeSessions 101 sessionDb) 101 bearerRequest (RequireBool True)
     = Inl (Client \<lparr> status = 401, code = ''expired-session'',
              message = ''Session has expired'', data = NoData, headers = [] \<rparr>)"
proof -
  note t = authenticate_session_expiry
    [OF bearerRequest_allowed decrypt_toyToken sessionId_toyPayload]
  have live: "\<exists>s \<in> set (sessionsTable sessionDb).
      sqlIdEq toyEnv (session_id s) (JString ''7'') \<and> 99 \<le> session_expirationDate s"
    by (simp add: sessionDb_def sqlIdEq_toyEnv digitChar_def digitClass_def)
  with t [of sessionDb 99] obtain who
    where who: "authenticate toyEnv sessionDb 99 bearerRequest (RequireBool True) = Inr who"
    by blast
  with t [of sessionDb 99] have "type who = ''token''" "sessionId who = Some (JString ''7'')"
    "\<exists>s \<in> set (sessionsTable sessionDb). userId who = Some (session_userId s)"
    by blast+
  then have "who = \<lparr> type = ''token'', userId = Some 3, sessionId = Some (JString ''7'') \<rparr>"
    by (cases who) (simp add: sessionDb_def)
  with who have a: "authenticate toyEnv sessionDb 99 bearerRequest (RequireBool True)
     = Inr \<lparr> type = ''token'', userId = Some 3, sessionId = Some (JString ''7'') \<rparr>"
    by simp
  have dead: "\<not> (\<exists>s \<in> set (sessionsTable sessionDb).
      sqlIdEq toyEnv (session_id s) (JString ''7'') \<and> 101 \<le> session_expirationDate s)"
    by (simp add: sessionDb_def)
  with t [of sessionDb 101] have b: "authenticate toyEnv sessionDb 101 bearerRequest (RequireBool True)
     = Inl (Client \<lparr> status = 401, code = ''expired-session'',
              message = ''Session has expired'', data = NoData, headers = [] \<rparr>)"
    by (simp add: bearerRequest_def)
  with t [of sessionDb 101] have c:
    "authenticate toyEnv (purgeSessions 101 sessionDb) 101 bearerRequest (RequireBool True)
     = Inl (Client \<lparr> status = 401, code = ''expired-session'',
              message = ''Session has expired'', data = NoData, headers = [] \<rparr>)"
    by simp
  from a b c show ?thesis by blast
qed

text \<open>
  Claim C4 as worded fails at the instant \<open>now = expirationDate\<close>: the query keeps a session
  with \<open>expirationDate >= NOW()\<close>, so authentication succeeds.
\<close>

theorem authenticate_at_expiration_counterexample:
  "session_expirationDate (hd (sessionsTable sessionDb)) = 100
   \<and> authenticate toyEnv sessionDb 100 bearerRequest (RequireBool True)
     = Inr \<lparr> type = ''token'', userId = Some 3, sessionId = Some (JString ''7'') \<rparr>"
proof -
  have "authenticate toyEnv sessionDb 100 bearerRequest (RequireBool True)
     = Inr \<lparr> type = ''token'', userId = Some 3, sessionId = Some (JString ''7'') \<rparr>"
    unfolding authenticate_bearer [OF bearerRequest_allowed, of toyEnv sessionDb 100]
    by (simp add: decrypt_toyToken sessionId_toyPayload sessionDb_live)
       (simp add: sessionDb_def)
  then show ?thesis by (simp add: sessionDb_def)
qed

section \<open>The status of authentication failures\<close>

lemma startsWith_append: "startsWith s p \<Longrightarrow> s = p @ drop (length p) s"
  unfolding startsWith_def by (metis append_take_drop_id)

lemma decrypt_Inl: "decrypt env token = Inl err \<Longrightarrow> err = invalidAuth"
  by (auto simp: decrypt_def Let_def split: option.splits if_splits)

lemma destructureSessionId_Inl:
  "destructureSessionId payload = Inl err \<Longrightarrow> err = Internal ''TypeError''"
  by (cases payload) simp_all

lemma invalidAuth_value:
  "invalidAuth = \<lparr> status = 400, code = ''invalid-auth'',
     message = ''Invalid authentication'', data = NoData, headers = [] \<rparr>"
  by (simp add: invalidAuth_def new_ClientError_def)

text \<open>
  Claim C3, on the code. Every client error \<open>authenticate\<close> fails with has the status 401,
  but for one: when the bearer token does not decrypt, the error is \<open>invalidAuth\<close>, built
  by \<open>decrypt\<close> without a status, and the client is answered with the default status 400
  and without the \<open>WWW-Authenticate\<close> header.
\<close>

theorem authenticate_failure_status:
  "(\<forall>err. authenticate env db now req require = Inl (Client err) \<longrightarrow>
        status err = 401 \<or>
        (err = invalidAuth \<and> status err = 400 \<and>
         (\<exists>token. authorization req = Some (''Bearer '' @ token) \<and>
                   decrypt env token = Inl invalidAuth)))
   \<and> (\<forall>token err. authorization req = Some (''Bearer '' @ token) \<and>
          (\<not> isString require \<or> require = RequireType ''token'') \<and>
          decrypt env token = Inl err \<longrightarrow>
        authenticate env db now req require = Inl (Client invalidAuth) \<and>
        res_status (errorResponse (Client invalidAuth)) = 400 \<and>
        res_headers (errorResponse (Client invalidAuth)) = [])"
proof (intro conjI allI impI)
  fix err
  assume f: "authenticate env db now req require = Inl (Client err)"
  show "status err = 401 \<or>
        (err = invalidAuth \<and> status err = 400 \<and>
         (\<exists>token. authorization req = Some (''Bearer '' @ token) \<and>
                   decrypt env token = Inl invalidAuth))"
  proof (cases "authorization req")
    case None
    with f show ?thesis
      by (auto simp: authenticate_def authError_value split: if_splits)
  next
    case (Some auth)
    show ?thesis
    proof (cases "startsWith auth ''Basic '' \<and>
             (\<not> isString require \<or> require = RequireType ''credentials'')")
      case True
      with f Some show ?thesis
        by (auto simp: authenticate_def authError_value Let_def
            split: option.splits list.splits if_splits)
    next
      case notBasic: False
      show ?thesis
      proof (cases "startsWith auth ''Bearer '' \<and>
             (\<not> isString require \<or> require = RequireType ''token'')")
        case False
        with f Some notBasic show ?thesis
          by (auto simp: authenticate_def authError_value split: if_splits)
      next
        case True
        have len: "length ''Bearer '' = 7" by simp
        from True have "auth = ''Bearer '' @ drop (length ''Bearer '') auth"
          by (intro startsWith_append) simp
        then have auth: "auth = ''Bearer '' @ drop 7 auth" by (simp only: len)
        have a: "authorization req = Some (''Bearer '' @ drop 7 auth)"
          using Some auth by simp
        note eq = authenticate_bearer [OF a conjunct2 [OF True], of env db now]
        show ?thesis
        proof (cases "decrypt env (drop 7 auth)")
          case (Inl e)
          then have e: "e = invalidAuth" by (rule decrypt_Inl)
          with Inl eq f have "err = invalidAuth" by simp
          moreover have "status invalidAuth = 400" by (simp add: invalidAuth_value)
          ultimately show ?thesis using a Inl e by blast
        next
          case (Inr payload)
          with eq f have "status err = 401"
            by (auto split: sum.splits list.splits dest: destructureSessionId_Inl)
          then show ?thesis by simp
        qed
      qed
    qed
  qed
next
  fix token err
  assume h: "authorization req = Some (''Bearer '' @ token) \<and>
          (\<not> isString require \<or> require = RequireType ''token'') \<and>
          decrypt env token = Inl err"
  then have "err = invalidAuth" using decrypt_Inl by blast
  with h show "authenticate env db now req require = Inl (Client invalidAuth)"
    using authenticate_bearer [of req token require env db now] by simp
next
  show "res_status (errorResponse (Client invalidAuth)) = 400"
    by (simp add: invalidAuth_value)
next
  show "res_headers (errorResponse (Client invalidAuth)) = []"
    by (simp add: invalidAuth_value)
qed

text \<open>The request \<open>Authorization: Bearer x\<close>.\<close>

theorem authenticate_failure_status_witness:
  "authenticate toyEnv sessionDb 0
      \<lparr> authorization = Some ''Bearer x'', xhr = False, body = JUndefined \<rparr> (RequireBool True)
     = Inl (Client \<lparr> status = 400, code = ''invalid-auth'',
              message = ''Invalid authentication'', data = NoData, headers = [] \<rparr>)
   \<and> res_status (errorResponse (Client invalidAuth)) = 400"
proof -
  let ?req = "\<lparr> authorization = Some ''Bearer x'', xhr = False, body = JUndefined \<rparr>"
  have d: "decrypt toyEnv ''x'' = Inl invalidAuth"
    by (simp add: decrypt_def toyEnv_def Let_def bufferSlice_def ivSize_def tagSize_def)
  have "authorization ?req = Some (''Bearer '' @ ''x'') \<and>
      (\<not> isString (RequireBool True) \<or> RequireBool True = RequireType ''token'') \<and>
      decrypt toyEnv ''x'' = Inl invalidAuth"
    using d by simp
  then show ?thesis
    using authenticate_failure_status [of toyEnv sessionDb 0 ?req "RequireBool True"]
    by (metis invalidAuth_value)
qed


section \<open>Creating a list without credentials\<close>

lemma jsonValidate_listsShape:
  "name \<noteq> [] \<Longrightarrow>
   jsonValidate (JObject [(''name'', JString name)]) listsShape None
     = Inr (JObject [(''name'', JString name)])"
  by (simp add: listsShape_def jsonValidate_eval)

lemma hasRole_owner: "required \<in> set roles \<Longrightarrow> hasRole ''owner'' required"
  by (auto simp: hasRole_def roles_def)

text \<open>
  Claim C10. A request to \<open>POST /lists\<close> without an \<open>Authorization\<close> header whose body is
  a name (not empty, within the column's 255 characters) succeeds with status 201: the
  list is inserted under the next id, then a permission row with \<open>userId\<close> \<open>NULL\<close> and role
  \<open>owner\<close> for it. Afterwards every request without credentials is the anonymous identity
  and passes the permission check on the new list for each of the three roles.
\<close>

theorem postLists_anonymous_owner:
  assumes "authorization req = None"
    and "body req = JObject [(''name'', JString name)]"
    and "name \<noteq> []" and "length name \<le> 255"
    and "listIdsConsistent db"
  shows "\<exists>db'.
      postLists env db now req =
        Inr (\<lparr> res_status = 201, res_headers = [],
               res_body = JObject [(''listId'', JString (showNat (nextListId db))),
                                   (''success'', JBool True)] \<rparr>, db')
      \<and> listsTable db' = listsTable db @ [\<lparr> list_id = nextListId db, list_name = name \<rparr>]
      \<and> permissionsTable db' = permissionsTable db @
            [\<lparr> permission_id = nextPermissionId db, permission_userId = None,
               permission_listId = nextListId db, permission_role = ''owner'' \<rparr>]
      \<and> (\<forall>req' now' required. authorization req' = None \<and> required \<in> set roles \<longrightarrow>
            authenticate env db' now' req' (RequireBool False)
              = Inr \<lparr> type = ''none'', userId = None, sessionId = None \<rparr>
            \<and> checkPermissions req' db' None (nextListId db) required = Inr ())"
proof -
  let ?id = "nextListId db"
  let ?row = "\<lparr> permission_id = nextPermissionId db, permission_userId = None,
               permission_listId = ?id, permission_role = ''owner'' \<rparr>"
  let ?db1 = "db \<lparr> listsTable := listsTable db @ [\<lparr> list_id = ?id, list_name = name \<rparr>],
                   nextListId := Suc ?id \<rparr>"
  let ?db2 = "db \<lparr> listsTable := listsTable db @ [\<lparr> list_id = ?id, list_name = name \<rparr>],
                   nextListId := Suc ?id,
                   permissionsTable := permissionsTable db @ [?row],
                   nextPermissionId := Suc (nextPermissionId db) \<rparr>"
  have ins1: "insertList db (JObject [(''name'', JString name)]) = Inr (?id, ?db1)"
    using assms(4) by (simp add: insertList_def jsonGet_def)
  have ins2: "insertOwner ?db1 None ?id = Inr ?db2"
    by (simp add: insertOwner_def)
  have post: "postLists env db now req =
        Inr (\<lparr> res_status = 201, res_headers = [],
               res_body = JObject [(''listId'', JString (showNat ?id)),
                                   (''success'', JBool True)] \<rparr>, ?db2)"
    using assms(1,2,3)
    by (simp add: postLists_def authenticate_no_header jsonValidate_listsShape ins1 ins2
        del: showNat.simps)
  have fresh: "\<forall>p \<in> set (permissionsTable db). permission_listId p \<noteq> ?id"
    using assms(5) unfolding listIdsConsistent_def by fastforce
  then have "filter (permissionMatches None ?id) (permissionsTable db) = []"
    by (auto simp: filter_empty_conv permissionMatches_iff)
  then have rows: "filter (permissionMatches None ?id) (permissionsTable ?db2) = [?row]"
    by (simp add: permissionMatches_iff)
  have check: "\<forall>req' now' required. authorization req' = None \<and> required \<in> set roles \<longrightarrow>
            authenticate env ?db2 now' req' (RequireBool False)
              = Inr \<lparr> type = ''none'', userId = None, sessionId = None \<rparr>
            \<and> checkPermissions req' ?db2 None ?id required = Inr ()"
    using rows by (simp add: authenticate_no_header checkPermissions_def hasRole_owner)
  have l: "listsTable ?db2 = listsTable db @ [\<lparr> list_id = ?id, list_name = name \<rparr>]" by simp
  have q: "permissionsTable ?db2 = permissionsTable db @ [?row]" by simp
  from post l q check show ?thesis by blast
qed

text \<open>Creating the list \<open>Chores\<close> anonymously, as list 11.\<close>

theorem postLists_anonymous_owner_witness:
  "(\<exists>db'. postLists toyEnv permsDb 0
        \<lparr> authorization = None, xhr = True, body = JObject [(''name'', JString ''Chores'')] \<rparr>
      = Inr (\<lparr> res_status = 201, res_headers = [],
               res_body = JObject [(''listId'', JString ''11''), (''success'', JBool True)] \<rparr>,
             db')
      \<and> checkPermissions plainRequest db' None 11 ''owner'' = Inr ()
      \<and> checkPermissions plainRequest db' (Some 1) 11 ''read''
          = Inl \<lparr> status = 401, code = ''insufficient-perms'',
                 message = ''Insufficient permissions'', data = NoData, headers = [] \<rparr>)"
proof -
  let ?req = "\<lparr> authorization = None, xhr = True, body = JObject [(''name'', JString ''Chores'')] \<rparr>"
  have c: "listIdsConsistent permsDb"
    by (simp add: listIdsConsistent_def permsDb_def)
  have n: "nextListId permsDb = 11" "showNat 11 = ''11''"
    by (simp_all add: permsDb_def digitChar_def digitClass_def)
  have o: "''owner'' \<in> set roles" by (simp add: roles_def)
  from postLists_anonymous_owner [of ?req "''Chores''" permsDb toyEnv 0, OF _ _ _ _ c]
  obtain db' where d:
    "postLists toyEnv permsDb 0 ?req =
        Inr (\<lparr> res_status = 201, res_headers = [],
               res_body = JObject [(''listId'', JString ''11''), (''success'', JBool True)] \<rparr>,
             db')"
    "permissionsTable db' = permissionsTable permsDb @
            [\<lparr> permission_id = nextPermissionId permsDb, permission_userId = None,
               permission_listId = 11, permission_role = ''owner'' \<rparr>]"
    "checkPermissions plainRequest db' None 11 ''owner'' = Inr ()"
    using o unfolding n by (auto simp: plainRequest_def)
  from d(2) have "checkPermissions plainRequest db' (Some 1) 11 ''read''
          = Inl \<lparr> status = 401, code = ''insufficient-perms'',
                 message = ''Insufficient permissions'', data = NoData, headers = [] \<rparr>"
    by (simp add: checkPermissions_def permsDb_def permissionMatches_def
        insufficientPerms_value plainRequest_def)
  with d(1,3) show ?thesis by blast
qed

end
